theory Spec2Isabelle
  imports Complex_Main "HOL-Library.Word" "HOL-Library.Signed_Division"
begin

section \<open>Tokens, types and the abstract syntax tree\<close>

text \<open>
  The token kinds that \<^verbatim>\<open>evaluator.go\<close> and \<^verbatim>\<open>statement_parser.go\<close> name
  (\<^verbatim>\<open>token.Let\<close>, \<^verbatim>\<open>token.Slash\<close>, ...). \<^verbatim>\<open>token_Decrement\<close> and \<^verbatim>\<open>token_Other\<close>
  stand for the kinds the two files never name.
\<close>

datatype TokenType =
    token_Let | token_Return | token_Func | token_LBrace | token_RBrace
  | token_If | token_Else | token_While | token_Semi | token_Ident
  | token_Colon | token_Define | token_Assign | token_LParen | token_EOF
  | token_Bang | token_Minus | token_LogicalAnd | token_LogicalOr
  | token_EQ | token_NEQ | token_LT | token_GT | token_LTE | token_GTE
  | token_Plus | token_Slash | token_Star | token_Increment | token_Decrement
  | token_Other string

text \<open>
  A token, with the two fields that the source files read. Its position in the source text
  is not read by either file and is left out.
\<close>

record Token =
  Type :: TokenType
  Literal :: string

text \<open>
  Modelled from the spec: the declarations of the static types are not in the source
  files at hand. The spec lists the variants; \<^verbatim>\<open>NeverType\<close> carries the message that
  \<^verbatim>\<open>parseLetStatement\<close> reports, \<^verbatim>\<open>FunctionType\<close> the fields that
  \<^verbatim>\<open>parseFunctionDefinitionStatement\<close> sets.
\<close>

datatype Type =
    IntegerType | FloatType | StringType | BooleanType | VoidType
  | NeverType string
  | FunctionType "Type list" Type
  | UserDefinedType string

type_synonym int64 = "64 word"

text \<open>A \<^verbatim>\<open>*Context\<close> is an index into the parser's arena of contexts; \<open>None\<close> is \<^verbatim>\<open>nil\<close>.\<close>

type_synonym Context_ptr = "nat option"

text \<open>
  The \<^verbatim>\<open>Identifier\<close> node struct, which is also the type of the \<^verbatim>\<open>Name\<close> fields, and a
  parameter of a function definition with its fields \<^verbatim>\<open>Name\<close> and \<^verbatim>\<open>Type\<close> (here
  \<open>ParamType\<close>, the name \<open>Type\<close> being the token's field).
\<close>

record Identifier =
  IdentToken :: "Token option"
  Value :: string

record Parameter =
  Name :: Identifier
  ParamType :: Type

text \<open>
  One constructor per node struct, with the fields that the two source files read or set,
  in this order:
  \<^item> \<open>Program Statements Context\<close>
  \<^item> \<open>InfixExpression Left Operator Right\<close>, \<open>PrefixExpression Operator Expression\<close>
  \<^item> \<open>CallExpression Function Arguments\<close>, \<open>AssignmentExpression Name Expression\<close>
  \<^item> \<open>IncrementExpression Name Operator Pre\<close>, \<open>MemberAccessExpression Expression Member\<close>
  \<^item> \<open>LetStatement LetToken Name Type Value\<close>
  \<^item> \<open>FunctionDefinitionStatement FuncToken Name Parameters ReturnType Body
      FunctionContext FunctionType ThisType\<close>
  \<^item> \<open>ReturnStatement ReturnToken Expression\<close>
  \<^item> \<open>BlockStatement Statements LBraceToken RBraceToken Context\<close>
  \<^item> \<open>IfStatement IfToken Condition Statement Alternative StatementContext
      AlternativeContext\<close>
  \<^item> \<open>WhileStatement WhileToken Condition Statement StatementContext\<close>
  \<open>NilNode\<close> is a \<^verbatim>\<open>nil\<close> in a field that holds a node: \<^verbatim>\<open>parseIfStatement\<close> and
  \<^verbatim>\<open>parseWhileStatement\<close> store what \<^verbatim>\<open>parseStatement\<close> returns, which is a \<^verbatim>\<open>nil\<close>
  pointer of a statement type after a parse error.
  The type parameter \<open>'f\<close> is the host's \<^verbatim>\<open>float64\<close>.
\<close>

datatype 'f Node =
    Program "'f Node list" Context_ptr
  | ExpressionStatement "'f Node"
  | StringLiteral string
  | IntegerLiteral int64
  | FloatLiteral 'f
  | BooleanLiteral bool
  | NullLiteral
  | VoidLiteral
  | Identifier Identifier
  | InfixExpression "'f Node" TokenType "'f Node"
  | PrefixExpression TokenType "'f Node"
  | CallExpression "'f Node" "'f Node list"
  | AssignmentExpression Identifier "'f Node"
  | IncrementExpression Identifier TokenType bool
  | MemberAccessExpression "'f Node" Identifier
  | LetStatement "Token option" Identifier "Type option" "'f Node"
  | FunctionDefinitionStatement "Token option" Identifier "Parameter list" "Type option"
      "'f Node" Context_ptr "Type option" "Type option"
  | ReturnStatement "Token option" "'f Node"
  | BlockStatement "'f Node list" "Token option" "Token option" Context_ptr
  | IfStatement "Token option" "'f Node" "'f Node" "'f Node option" Context_ptr Context_ptr
  | WhileStatement "Token option" "'f Node" "'f Node" Context_ptr
  | TypeDefinitionStatement
  | NilNode

section \<open>Runtime objects, the heap and the environments\<close>

text \<open>
  Every runtime object of the evaluator is a pointer to a struct: two names can hold the
  same \<^verbatim>\<open>*IntegerObject\<close>, and \<^verbatim>\<open>evalIncrementExpression\<close> changes it in place. So
  the model keeps the structs in a heap (a list, a pointer is an index) and an
  \<^verbatim>\<open>Object\<close> interface value is a \<open>nat option\<close>, \<open>None\<close> for \<^verbatim>\<open>nil\<close>.

  \<open>FunctionObject Parameters Body Environment Context FunctionType Receiver\<close>: the first
  five fields are those \<^verbatim>\<open>evalFunctionDefinitionStatement\<close> sets; the bound receiver is
  modelled from the spec (the struct's declaration is not in the source files at hand).
\<close>

datatype 'f Object =
    IntegerObject int64
  | FloatObject 'f
  | StringObject string
  | BooleanObject bool
  | NullObject
  | ErrorObject string
  | ReturnObject "nat option"
  | FunctionObject "Identifier list" "'f Node" nat Context_ptr "Type option" "nat option"

text \<open>
  Modelled from the spec: the \<^verbatim>\<open>Environment\<close> struct is not in the source files at hand.
  The spec describes a node in a tree of scopes holding name-to-object bindings and a
  parent reference, and a table keyed by (type, member name), independent of the scope
  chain. A binding can hold \<^verbatim>\<open>nil\<close> (a \<^verbatim>\<open>let\<close> of a call that returned nothing).
\<close>

record Environment =
  store :: "string \<rightharpoonup> nat option"
  parent :: "nat option"
  ctx :: Context_ptr

record 'f state =
  objs :: "'f Object list"
  envs :: "Environment list"
  members :: "(Type \<times> string) \<rightharpoonup> nat option"

text \<open>
  How a call of a Go function ends: it returns a value and leaves a state, or the Go
  runtime panics (an integer division by zero, a method call on a \<^verbatim>\<open>nil\<close> interface),
  or the model's fuel ran out (the call is still running).
\<close>

datatype ('a, 's) outcome =
    Done 'a 's
  | Panic string
  | OutOfFuel

text \<open>
  What the evaluator takes from the host language and from files that are not at hand:
  \<^item> the \<^verbatim>\<open>float64\<close> operations (\<^verbatim>\<open>-x\<close>, \<^verbatim>\<open>+ - * /\<close>, \<^verbatim>\<open>< > <= >= ==\<close>) and the
    conversion \<^verbatim>\<open>float64(i)\<close> of an \<^verbatim>\<open>int64\<close>;
  \<^item> \<^verbatim>\<open>Object.ToString\<close> and \<^verbatim>\<open>Object.Type\<close> of a non-nil object;
  \<^item> \<^verbatim>\<open>reflect.DeepEqual\<close> on two structs of the same kind that are functions or return
    sentinels;
  \<^item> \<^verbatim>\<open>Function.Execute\<close>, which receives the evaluator itself to run the body.
\<close>

record 'f host =
  fneg :: "'f \<Rightarrow> 'f"
  fadd :: "'f \<Rightarrow> 'f \<Rightarrow> 'f"
  fsub :: "'f \<Rightarrow> 'f \<Rightarrow> 'f"
  fmul :: "'f \<Rightarrow> 'f \<Rightarrow> 'f"
  fdiv :: "'f \<Rightarrow> 'f \<Rightarrow> 'f"
  flt :: "'f \<Rightarrow> 'f \<Rightarrow> bool"
  fgt :: "'f \<Rightarrow> 'f \<Rightarrow> bool"
  fle :: "'f \<Rightarrow> 'f \<Rightarrow> bool"
  fge :: "'f \<Rightarrow> 'f \<Rightarrow> bool"
  feq :: "'f \<Rightarrow> 'f \<Rightarrow> bool"
  ofInt64 :: "int64 \<Rightarrow> 'f"
  ToString :: "'f state \<Rightarrow> nat \<Rightarrow> string"
  TypeOf :: "'f state \<Rightarrow> nat \<Rightarrow> Type"
  DeepEqualStructs :: "'f state \<Rightarrow> nat \<Rightarrow> nat \<Rightarrow> bool"
  Execute :: "('f Node \<Rightarrow> nat \<Rightarrow> 'f state \<Rightarrow> (nat option, 'f state) outcome) \<Rightarrow>
                nat \<Rightarrow> nat option list \<Rightarrow> 'f state \<Rightarrow> (nat option, 'f state) outcome"

subsection \<open>Heap access\<close>

definition objAt :: "'f state \<Rightarrow> nat \<Rightarrow> 'f Object option" where
  "objAt s a = (if a < length (objs s) then Some (objs s ! a) else None)"

text \<open>The struct behind an interface value: what a Go type switch looks at.\<close>

definition deref :: "'f state \<Rightarrow> nat option \<Rightarrow> 'f Object option" where
  "deref s r = (case r of None \<Rightarrow> None | Some a \<Rightarrow> objAt s a)"

text \<open>\<^verbatim>\<open>&IntegerObject{...}\<close> and the like: a new struct at a new address.\<close>

definition new :: "'f Object \<Rightarrow> 'f state \<Rightarrow> (nat option, 'f state) outcome" where
  "new v s = Done (Some (length (objs s))) (s\<lparr>objs := objs s @ [v]\<rparr>)"

definition NewError :: "string \<Rightarrow> 'f state \<Rightarrow> (nat option, 'f state) outcome" where
  "NewError message s = new (ErrorObject message) s"

definition isError :: "'f state \<Rightarrow> nat option \<Rightarrow> bool" where
  "isError s object = (case deref s object of Some (ErrorObject m) \<Rightarrow> True | _ \<Rightarrow> False)"

subsection \<open>The environment\<close>

text \<open>
  Modelled from the spec: the file that holds the environment's operations is not among
  the source files at hand. The spec gives each of them:
  \<^item> a new environment is created with a reference to its parent;
  \<^item> \<^verbatim>\<open>define(name, value)\<close> inserts into the current scope only;
  \<^item> \<^verbatim>\<open>getObject(name)\<close> walks from the current scope outward through the parents and
    returns not-found when no scope binds the name;
  \<^item> \<^verbatim>\<open>assignObject(name, value)\<close> walks outward to an existing binding and changes it
    in place, and returns not-found when there is none;
  \<^item> the type members are a side table keyed by (type, member name).
  The walk is bounded by the number of environments: a chain with no cycle is no longer.
  Every definition of this subsection is modelled this way.
\<close>

definition ExtendEnvironment :: "nat \<Rightarrow> Context_ptr \<Rightarrow> 'f state \<Rightarrow> nat \<times> 'f state" where
  "ExtendEnvironment environment c s =
     (length (envs s),
      s\<lparr>envs := envs s @ [\<lparr>store = Map.empty, parent = Some environment, ctx = c\<rparr>]\<rparr>)"

definition DefineObject :: "nat \<Rightarrow> string \<Rightarrow> nat option \<Rightarrow> 'f state \<Rightarrow> 'f state" where
  "DefineObject environment name object s =
     s\<lparr>envs := (envs s)[environment :=
        (envs s ! environment)\<lparr>store := (store (envs s ! environment))(name \<mapsto> object)\<rparr>]\<rparr>"

primrec findScope :: "nat \<Rightarrow> Environment list \<Rightarrow> nat \<Rightarrow> string \<Rightarrow> nat option" where
  "findScope 0 es environment name = None"
| "findScope (Suc k) es environment name =
     (if environment < length es then
        (case store (es ! environment) name of
           Some object \<Rightarrow> Some environment
         | None \<Rightarrow>
             (case parent (es ! environment) of
                None \<Rightarrow> None
              | Some p \<Rightarrow> findScope k es p name))
      else None)"

text \<open>\<^verbatim>\<open>GetObject\<close> returns \<^verbatim>\<open>(object, exists)\<close>: \<open>None\<close> is \<^verbatim>\<open>exists = false\<close>.\<close>

definition GetObject :: "'f state \<Rightarrow> nat \<Rightarrow> string \<Rightarrow> nat option option" where
  "GetObject s environment name =
     (case findScope (length (envs s)) (envs s) environment name of
        None \<Rightarrow> None
      | Some e \<Rightarrow> store (envs s ! e) name)"

text \<open>\<^verbatim>\<open>AssignObject\<close> returns \<^verbatim>\<open>(object, ok)\<close>: \<open>None\<close> is \<^verbatim>\<open>ok = false\<close>.\<close>

definition AssignObject ::
  "nat \<Rightarrow> string \<Rightarrow> nat option \<Rightarrow> 'f state \<Rightarrow> (nat option \<times> 'f state) option" where
  "AssignObject environment name object s =
     (case findScope (length (envs s)) (envs s) environment name of
        None \<Rightarrow> None
      | Some e \<Rightarrow> Some (object, DefineObject e name object s))"

definition DefineTypeMember :: "Type \<Rightarrow> string \<Rightarrow> nat option \<Rightarrow> 'f state \<Rightarrow> 'f state" where
  "DefineTypeMember t name object s = s\<lparr>members := (members s)((t, name) \<mapsto> object)\<rparr>"

definition GetTypeMember :: "'f state \<Rightarrow> Type \<Rightarrow> string \<Rightarrow> nat option option" where
  "GetTypeMember s t name = members s (t, name)"

text \<open>
  Modelled from the spec: \<^verbatim>\<open>Function.With\<close> is not in the source files at hand. The spec:
  member access on a function produces a new function value with the evaluated
  expression bound as receiver.
\<close>

definition With :: "nat \<Rightarrow> nat \<Rightarrow> 'f state \<Rightarrow> (nat option, 'f state) outcome" where
  "With member object s =
     (case objAt s member of
        Some (FunctionObject ps body e c t r) \<Rightarrow> new (FunctionObject ps body e c t (Some object)) s
      | _ \<Rightarrow> Done (Some member) s)"

section \<open>The evaluator\<close>

subsection \<open>Truthiness and equality\<close>

text \<open>
  \<^verbatim>\<open>implicitBoolConversion\<close>, on the struct behind the interface value (\<open>None\<close> for
  \<^verbatim>\<open>nil\<close>). The constant \<^verbatim>\<open>0\<close> that a \<^verbatim>\<open>float64\<close> is compared with is \<^verbatim>\<open>float64(0)\<close>,
  and \<^verbatim>\<open>x != 0\<close> is the negation of \<^verbatim>\<open>x == 0\<close>.
\<close>

definition implicitBoolConversion :: "'f host \<Rightarrow> 'f Object option \<Rightarrow> bool" where
  "implicitBoolConversion h object =
     (case object of
        Some (BooleanObject v) \<Rightarrow> v
      | Some (IntegerObject v) \<Rightarrow> v \<noteq> 0
      | Some (FloatObject v) \<Rightarrow> \<not> feq h v (ofInt64 h 0)
      | Some (StringObject v) \<Rightarrow> length v \<noteq> 0
      | _ \<Rightarrow> True)"

text \<open>
  \<^verbatim>\<open>evalEquals\<close> is \<^verbatim>\<open>reflect.DeepEqual\<close> on the two interface values: two \<^verbatim>\<open>nil\<close>s are
  equal, a \<^verbatim>\<open>nil\<close> and an object are not, two pointers to structs of different types are
  not, and two pointers to structs of one type are equal when they are the same pointer
  or the structs' fields are equal (\<^verbatim>\<open>==\<close> on numbers, strings and booleans).
\<close>

definition evalEquals :: "'f host \<Rightarrow> 'f state \<Rightarrow> nat option \<Rightarrow> nat option \<Rightarrow> bool" where
  "evalEquals h s left right =
     (case left of
        None \<Rightarrow> right = None
      | Some a \<Rightarrow>
          (case right of
             None \<Rightarrow> False
           | Some b \<Rightarrow>
               (case objAt s a of
                  Some (IntegerObject x) \<Rightarrow>
                    (case objAt s b of Some (IntegerObject y) \<Rightarrow> a = b \<or> x = y | _ \<Rightarrow> False)
                | Some (FloatObject x) \<Rightarrow>
                    (case objAt s b of Some (FloatObject y) \<Rightarrow> a = b \<or> feq h x y | _ \<Rightarrow> False)
                | Some (StringObject x) \<Rightarrow>
                    (case objAt s b of Some (StringObject y) \<Rightarrow> a = b \<or> x = y | _ \<Rightarrow> False)
                | Some (BooleanObject x) \<Rightarrow>
                    (case objAt s b of Some (BooleanObject y) \<Rightarrow> a = b \<or> x = y | _ \<Rightarrow> False)
                | Some NullObject \<Rightarrow>
                    (case objAt s b of Some NullObject \<Rightarrow> True | _ \<Rightarrow> False)
                | Some (ErrorObject x) \<Rightarrow>
                    (case objAt s b of Some (ErrorObject y) \<Rightarrow> a = b \<or> x = y | _ \<Rightarrow> False)
                | Some (ReturnObject x) \<Rightarrow>
                    (case objAt s b of
                       Some (ReturnObject y) \<Rightarrow> a = b \<or> DeepEqualStructs h s a b
                     | _ \<Rightarrow> False)
                | Some (FunctionObject ps body e c t r) \<Rightarrow>
                    (case objAt s b of
                       Some (FunctionObject ps' body' e' c' t' r') \<Rightarrow>
                         a = b \<or> DeepEqualStructs h s a b
                     | _ \<Rightarrow> False)
                | None \<Rightarrow> False)))"

subsection \<open>Numeric operators\<close>

text \<open>
  The two constructors that \<^verbatim>\<open>evalInfixExpression\<close> passes build a new object, so in
  the model they take the state; the one for \<^verbatim>\<open>/\<close> on \<^verbatim>\<open>int64\<close> can panic.
\<close>

definition evalNumericInfix ::
  "'f host \<Rightarrow> nat option \<Rightarrow> nat option \<Rightarrow>
   (int64 \<Rightarrow> int64 \<Rightarrow> 'f state \<Rightarrow> (nat option, 'f state) outcome) \<Rightarrow>
   ('f \<Rightarrow> 'f \<Rightarrow> 'f state \<Rightarrow> (nat option, 'f state) outcome) \<Rightarrow>
   'f state \<Rightarrow> (nat option, 'f state) outcome" where
  "evalNumericInfix h left right intConstructor floatConstructor s =
     (case deref s left of
        Some (IntegerObject l) \<Rightarrow>
          (case deref s right of
             Some (IntegerObject r) \<Rightarrow> intConstructor l r s
           | Some (FloatObject r) \<Rightarrow> floatConstructor (ofInt64 h l) r s
           | _ \<Rightarrow> NewError ''Invalid infix operator'' s)
      | Some (FloatObject l) \<Rightarrow>
          (case deref s right of
             Some (IntegerObject r) \<Rightarrow> floatConstructor l (ofInt64 h r) s
           | Some (FloatObject r) \<Rightarrow> floatConstructor l r s
           | _ \<Rightarrow> NewError ''Invalid infix operator'' s)
      | _ \<Rightarrow> NewError ''Invalid infix operator'' s)"

text \<open>
  Go's \<^verbatim>\<open>/\<close> on \<^verbatim>\<open>int64\<close>: the quotient of the two signed values truncated towards zero
  (\<open>sdiv\<close> on \<open>int\<close>), wrapping for \<^verbatim>\<open>MinInt64 / -1\<close>, and a run-time panic when the
  divisor is zero.
\<close>

definition intDivide :: "int64 \<Rightarrow> int64 \<Rightarrow> 'f state \<Rightarrow> (nat option, 'f state) outcome" where
  "intDivide left right s =
     (if right = 0 then Panic ''runtime error: integer divide by zero''
      else new (IntegerObject (word_of_int (sint left sdiv sint right))) s)"

text \<open>
  \<^verbatim>\<open>leftObject.ToString() + rightObject.ToString()\<close>: a method call on a \<^verbatim>\<open>nil\<close>
  interface value panics.
\<close>

definition concatStrings ::
  "'f host \<Rightarrow> nat option \<Rightarrow> nat option \<Rightarrow> 'f state \<Rightarrow> (nat option, 'f state) outcome" where
  "concatStrings h left right s =
     (case left of
        None \<Rightarrow> Panic ''runtime error: invalid memory address or nil pointer dereference''
      | Some a \<Rightarrow>
          (case right of
             None \<Rightarrow> Panic ''runtime error: invalid memory address or nil pointer dereference''
           | Some b \<Rightarrow> new (StringObject (ToString h s a @ ToString h s b)) s))"

definition isString :: "'f state \<Rightarrow> nat option \<Rightarrow> bool" where
  "isString s object = (case deref s object of Some (StringObject v) \<Rightarrow> True | _ \<Rightarrow> False)"

text \<open>
  The \<^verbatim>\<open>switch infixExpression.Operator\<close> that ends \<^verbatim>\<open>evalInfixExpression\<close>, on the two
  evaluated operands.
\<close>

definition infixOperator ::
  "'f host \<Rightarrow> TokenType \<Rightarrow> nat option \<Rightarrow> nat option \<Rightarrow> 'f state \<Rightarrow> (nat option, 'f state) outcome" where
  "infixOperator h operator leftObject rightObject s =
     (case operator of
        token_EQ \<Rightarrow> new (BooleanObject (evalEquals h s leftObject rightObject)) s
      | token_NEQ \<Rightarrow> new (BooleanObject (\<not> evalEquals h s leftObject rightObject)) s
      | token_LT \<Rightarrow>
          evalNumericInfix h leftObject rightObject
            (\<lambda>left right. new (BooleanObject (left <s right)))
            (\<lambda>left right. new (BooleanObject (flt h left right))) s
      | token_GT \<Rightarrow>
          evalNumericInfix h leftObject rightObject
            (\<lambda>left right. new (BooleanObject (right <s left)))
            (\<lambda>left right. new (BooleanObject (fgt h left right))) s
      | token_LTE \<Rightarrow>
          evalNumericInfix h leftObject rightObject
            (\<lambda>left right. new (BooleanObject (left \<le>s right)))
            (\<lambda>left right. new (BooleanObject (fle h left right))) s
      | token_GTE \<Rightarrow>
          evalNumericInfix h leftObject rightObject
            (\<lambda>left right. new (BooleanObject (right \<le>s left)))
            (\<lambda>left right. new (BooleanObject (fge h left right))) s
      | token_Plus \<Rightarrow>
          (if isString s leftObject \<or> isString s rightObject
           then concatStrings h leftObject rightObject s
           else evalNumericInfix h leftObject rightObject
                  (\<lambda>left right. new (IntegerObject (left + right)))
                  (\<lambda>left right. new (FloatObject (fadd h left right))) s)
      | token_Minus \<Rightarrow>
          evalNumericInfix h leftObject rightObject
            (\<lambda>left right. new (IntegerObject (left - right)))
            (\<lambda>left right. new (FloatObject (fsub h left right))) s
      | token_Slash \<Rightarrow>
          evalNumericInfix h leftObject rightObject
            intDivide
            (\<lambda>left right. new (FloatObject (fdiv h left right))) s
      | token_Star \<Rightarrow>
          evalNumericInfix h leftObject rightObject
            (\<lambda>left right. new (IntegerObject (left * right)))
            (\<lambda>left right. new (FloatObject (fmul h left right))) s
      | _ \<Rightarrow> NewError ''Unknown infix operator'' s)"

subsection \<open>One function of the model per function of \<^verbatim>\<open>evaluator.go\<close>\<close>

text \<open>
  \<^verbatim>\<open>Eval\<close> and its helpers call each other. Each helper of the model takes the
  evaluator it calls back as its argument \<open>ev\<close>; \<open>Eval\<close> below passes itself, with one
  unit of fuel less.
\<close>

type_synonym 'f evaluator = "'f Node \<Rightarrow> nat \<Rightarrow> 'f state \<Rightarrow> (nat option, 'f state) outcome"

definition andThen ::
  "('a, 's) outcome \<Rightarrow> ('a \<Rightarrow> 's \<Rightarrow> ('b, 's) outcome) \<Rightarrow> ('b, 's) outcome" where
  "andThen m k = (case m of Done x s \<Rightarrow> k x s | Panic msg \<Rightarrow> Panic msg | OutOfFuel \<Rightarrow> OutOfFuel)"

primrec programStatements ::
  "'f evaluator \<Rightarrow> 'f Node list \<Rightarrow> nat \<Rightarrow> 'f state \<Rightarrow> (nat option, 'f state) outcome" where
  "programStatements ev [] newEnvironment s = Done None s"
| "programStatements ev (statement # statements) newEnvironment s =
     andThen (ev statement newEnvironment s) (\<lambda>result s1.
       case deref s1 result of
         Some (ErrorObject m) \<Rightarrow> Done result s1
       | _ \<Rightarrow> programStatements ev statements newEnvironment s1)"

definition evalProgram ::
  "'f evaluator \<Rightarrow> 'f Node list \<Rightarrow> Context_ptr \<Rightarrow> nat \<Rightarrow> 'f state \<Rightarrow> (nat option, 'f state) outcome" where
  "evalProgram ev statements c environment s =
     (case ExtendEnvironment environment c s of
        (newEnvironment, s0) \<Rightarrow> programStatements ev statements newEnvironment s0)"

definition evalPrefixExpression ::
  "'f host \<Rightarrow> 'f evaluator \<Rightarrow> TokenType \<Rightarrow> 'f Node \<Rightarrow> nat \<Rightarrow> 'f state \<Rightarrow> (nat option, 'f state) outcome" where
  "evalPrefixExpression h ev operator expression environment s =
     andThen (ev expression environment s) (\<lambda>object s1.
       if isError s1 object then Done object s1
       else
         (case operator of
            token_Bang \<Rightarrow> new (BooleanObject (\<not> implicitBoolConversion h (deref s1 object))) s1
          | token_Minus \<Rightarrow>
              (case deref s1 object of
                 Some (IntegerObject v) \<Rightarrow> new (IntegerObject (- v)) s1
               | Some (FloatObject v) \<Rightarrow> new (FloatObject (fneg h v)) s1
               | _ \<Rightarrow> NewError ''Unknown prefix operator'' s1)
          | _ \<Rightarrow> NewError ''Unknown prefix operator'' s1))"

definition evalInfixExpression ::
  "'f host \<Rightarrow> 'f evaluator \<Rightarrow> 'f Node \<Rightarrow> TokenType \<Rightarrow> 'f Node \<Rightarrow> nat \<Rightarrow> 'f state \<Rightarrow>
   (nat option, 'f state) outcome" where
  "evalInfixExpression h ev left operator right environment s =
     andThen (ev left environment s) (\<lambda>leftObject s1.
       if isError s1 leftObject then Done leftObject s1
       else if operator = token_LogicalAnd \<and> \<not> implicitBoolConversion h (deref s1 leftObject)
         then new (BooleanObject False) s1
       else if operator = token_LogicalOr \<and> implicitBoolConversion h (deref s1 leftObject)
         then new (BooleanObject True) s1
       else
         andThen (ev right environment s1) (\<lambda>rightObject s2.
           if isError s2 rightObject then Done rightObject s2
           else if operator = token_LogicalAnd \<or> operator = token_LogicalOr
             then new (BooleanObject (implicitBoolConversion h (deref s2 rightObject))) s2
           else infixOperator h operator leftObject rightObject s2))"

definition evalAssignmentExpression ::
  "'f evaluator \<Rightarrow> Identifier \<Rightarrow> 'f Node \<Rightarrow> nat \<Rightarrow> 'f state \<Rightarrow> (nat option, 'f state) outcome" where
  "evalAssignmentExpression ev name expression environment s =
     andThen (ev expression environment s) (\<lambda>object s1.
       if isError s1 object then Done object s1
       else
         (case AssignObject environment (Value name) object s1 of
            Some (object', s2) \<Rightarrow> Done object' s2
          | None \<Rightarrow> NewError ''Cannot resolve variable'' s1))"

text \<open>The loop of \<^verbatim>\<open>evalCallExpression\<close> that appends each argument's result to a list.\<close>

primrec evalArguments ::
  "'f evaluator \<Rightarrow> 'f Node list \<Rightarrow> nat \<Rightarrow> nat option list \<Rightarrow> 'f state \<Rightarrow>
   (nat option list, 'f state) outcome" where
  "evalArguments ev [] environment argumentObjects s = Done argumentObjects s"
| "evalArguments ev (argument # arguments) environment argumentObjects s =
     andThen (ev argument environment s) (\<lambda>object s1.
       evalArguments ev arguments environment (argumentObjects @ [object]) s1)"

text \<open>The \<^verbatim>\<open>switch returned.(type)\<close> of \<^verbatim>\<open>evalCallExpression\<close>.\<close>

definition unwrapReturn :: "nat option \<Rightarrow> 'f state \<Rightarrow> (nat option, 'f state) outcome" where
  "unwrapReturn returned s =
     (case deref s returned of
        Some (ReturnObject object) \<Rightarrow> Done object s
      | _ \<Rightarrow> Done returned s)"

definition evalCallExpression ::
  "'f host \<Rightarrow> 'f evaluator \<Rightarrow> 'f Node \<Rightarrow> 'f Node list \<Rightarrow> nat \<Rightarrow> 'f state \<Rightarrow>
   (nat option, 'f state) outcome" where
  "evalCallExpression h ev function arguments environment s =
     andThen (ev function environment s) (\<lambda>function' s1.
       case function' of
         None \<Rightarrow> NewError ''Cannot call non-function'' s1
       | Some f \<Rightarrow>
           (case objAt s1 f of
              Some (ErrorObject m) \<Rightarrow> Done function' s1
            | Some (FunctionObject ps body e c t r) \<Rightarrow>
                andThen (evalArguments ev arguments environment [] s1) (\<lambda>argumentObjects s2.
                  andThen (Execute h ev f argumentObjects s2) unwrapReturn)
            | _ \<Rightarrow> NewError ''Cannot call non-function'' s1))"

definition evalIdentifierExpression ::
  "Identifier \<Rightarrow> nat \<Rightarrow> 'f state \<Rightarrow> (nat option, 'f state) outcome" where
  "evalIdentifierExpression identifier environment s =
     (case GetObject s environment (Value identifier) of
        Some object \<Rightarrow> Done object s
      | None \<Rightarrow> NewError ''Cannot resolve identifier'' s)"

definition evalLetStatement ::
  "'f evaluator \<Rightarrow> Identifier \<Rightarrow> 'f Node \<Rightarrow> nat \<Rightarrow> 'f state \<Rightarrow> (nat option, 'f state) outcome" where
  "evalLetStatement ev name value environment s =
     andThen (ev value environment s) (\<lambda>object s1.
       if isError s1 object then Done object s1
       else Done None (DefineObject environment (Value name) object s1))"

definition evalFunctionDefinitionStatement ::
  "Identifier \<Rightarrow> Parameter list \<Rightarrow> 'f Node \<Rightarrow> Context_ptr \<Rightarrow> Type option \<Rightarrow> Type option \<Rightarrow>
   nat \<Rightarrow> 'f state \<Rightarrow> (nat option, 'f state) outcome" where
  "evalFunctionDefinitionStatement name parameters body functionContext functionType thisType
     environment s =
     andThen (new (FunctionObject (map Name parameters) body environment functionContext
                functionType None) s) (\<lambda>object s1.
       case thisType of
         Some t \<Rightarrow> Done None (DefineTypeMember t (Value name) object s1)
       | None \<Rightarrow> Done None (DefineObject environment (Value name) object s1))"

definition evalReturnStatement ::
  "'f evaluator \<Rightarrow> 'f Node \<Rightarrow> nat \<Rightarrow> 'f state \<Rightarrow> (nat option, 'f state) outcome" where
  "evalReturnStatement ev expression environment s =
     andThen (ev expression environment s) (\<lambda>object s1.
       if isError s1 object then Done object s1
       else new (ReturnObject object) s1)"

primrec blockStatements ::
  "'f evaluator \<Rightarrow> 'f Node list \<Rightarrow> nat \<Rightarrow> 'f state \<Rightarrow> (nat option, 'f state) outcome" where
  "blockStatements ev [] newEnvironment s = Done None s"
| "blockStatements ev (statement # statements) newEnvironment s =
     andThen (ev statement newEnvironment s) (\<lambda>object s1.
       case deref s1 object of
         Some (ErrorObject m) \<Rightarrow> Done object s1
       | Some (ReturnObject r) \<Rightarrow> Done object s1
       | _ \<Rightarrow> blockStatements ev statements newEnvironment s1)"

definition evalBlockStatement ::
  "'f evaluator \<Rightarrow> 'f Node list \<Rightarrow> Context_ptr \<Rightarrow> nat \<Rightarrow> 'f state \<Rightarrow> (nat option, 'f state) outcome" where
  "evalBlockStatement ev statements c environment s =
     (case ExtendEnvironment environment c s of
        (newEnvironment, s0) \<Rightarrow> blockStatements ev statements newEnvironment s0)"

text \<open>The \<^verbatim>\<open>switch object.(type)\<close> that ends \<^verbatim>\<open>evalIfStatement\<close>.\<close>

definition sentinelOrNil :: "nat option \<Rightarrow> 'f state \<Rightarrow> (nat option, 'f state) outcome" where
  "sentinelOrNil object s =
     (case deref s object of
        Some (ErrorObject m) \<Rightarrow> Done object s
      | Some (ReturnObject r) \<Rightarrow> Done object s
      | _ \<Rightarrow> Done None s)"

definition evalIfStatement ::
  "'f host \<Rightarrow> 'f evaluator \<Rightarrow> 'f Node \<Rightarrow> 'f Node \<Rightarrow> 'f Node option \<Rightarrow> Context_ptr \<Rightarrow> Context_ptr \<Rightarrow>
   nat \<Rightarrow> 'f state \<Rightarrow> (nat option, 'f state) outcome" where
  "evalIfStatement h ev condition statement alternative statementContext alternativeContext
     environment s =
     andThen (ev condition environment s) (\<lambda>condition' s1.
       if isError s1 condition' then Done condition' s1
       else if implicitBoolConversion h (deref s1 condition') then
         (case ExtendEnvironment environment statementContext s1 of
            (e, s2) \<Rightarrow> andThen (ev statement e s2) sentinelOrNil)
       else
         (case alternative of
            Some alternative' \<Rightarrow>
              (case ExtendEnvironment environment alternativeContext s1 of
                 (e, s2) \<Rightarrow> andThen (ev alternative' e s2) sentinelOrNil)
          | None \<Rightarrow> sentinelOrNil None s1))"

text \<open>
  One turn of the \<^verbatim>\<open>for\<close> loop of \<^verbatim>\<open>evalWhileStatement\<close>. \<^verbatim>\<open>continue\<close> starts the next
  turn: the evaluator is called back on the while statement itself, so every turn costs
  fuel and a loop that never ends is \<open>OutOfFuel\<close> for every amount of fuel.
\<close>

definition evalWhileStatement ::
  "'f host \<Rightarrow> 'f evaluator \<Rightarrow> Token option \<Rightarrow> 'f Node \<Rightarrow> 'f Node \<Rightarrow> Context_ptr \<Rightarrow>
   nat \<Rightarrow> 'f state \<Rightarrow> (nat option, 'f state) outcome" where
  "evalWhileStatement h ev whileToken condition statement statementContext environment s =
     andThen (ev condition environment s) (\<lambda>condition' s1.
       if isError s1 condition' then Done condition' s1
       else if \<not> implicitBoolConversion h (deref s1 condition') then Done None s1
       else
         (case ExtendEnvironment environment statementContext s1 of
            (e, s2) \<Rightarrow>
              andThen (ev statement e s2) (\<lambda>object s3.
                case deref s3 object of
                  Some (ErrorObject m) \<Rightarrow> Done object s3
                | Some (ReturnObject r) \<Rightarrow> Done object s3
                | _ \<Rightarrow> ev (WhileStatement whileToken condition statement statementContext)
                         environment s3)))"

text \<open>
  \<^verbatim>\<open>object.Value++\<close> writes the struct that the name is bound to; the constant \<^verbatim>\<open>1\<close>
  added to a \<^verbatim>\<open>float64\<close> is \<^verbatim>\<open>float64(1)\<close>.
\<close>

definition evalIncrementExpression ::
  "'f host \<Rightarrow> Identifier \<Rightarrow> TokenType \<Rightarrow> bool \<Rightarrow> nat \<Rightarrow> 'f state \<Rightarrow> (nat option, 'f state) outcome" where
  "evalIncrementExpression h name operator pre environment s =
     (case GetObject s environment (Value name) of
        None \<Rightarrow> NewError ''Cannot resolve identifier'' s
      | Some None \<Rightarrow> NewError ''Cannot increment non-int'' s
      | Some (Some a) \<Rightarrow>
          (case objAt s a of
             Some (IntegerObject oldValue) \<Rightarrow>
               (let s1 = s\<lparr>objs := (objs s)[a := IntegerObject
                           (if operator = token_Increment then oldValue + 1 else oldValue - 1)]\<rparr>
                in if pre then Done (Some a) s1 else new (IntegerObject oldValue) s1)
           | Some (FloatObject oldValue) \<Rightarrow>
               (let s1 = s\<lparr>objs := (objs s)[a := FloatObject
                           (if operator = token_Increment then fadd h oldValue (ofInt64 h 1)
                            else fsub h oldValue (ofInt64 h 1))]\<rparr>
                in if pre then Done (Some a) s1 else new (FloatObject oldValue) s1)
           | _ \<Rightarrow> NewError ''Cannot increment non-int'' s))"

text \<open>\<^verbatim>\<open>object.Type()\<close> on a \<^verbatim>\<open>nil\<close> interface value panics.\<close>

definition evalMemberAccessExpression ::
  "'f host \<Rightarrow> 'f evaluator \<Rightarrow> 'f Node \<Rightarrow> Identifier \<Rightarrow> nat \<Rightarrow> 'f state \<Rightarrow> (nat option, 'f state) outcome" where
  "evalMemberAccessExpression h ev expression member environment s =
     andThen (ev expression environment s) (\<lambda>object s1.
       if isError s1 object then Done object s1
       else
         (case object of
            None \<Rightarrow> Panic ''runtime error: invalid memory address or nil pointer dereference''
          | Some a \<Rightarrow>
              (case GetTypeMember s1 (TypeOf h s1 a) (Value member) of
                 None \<Rightarrow> NewError (''Member '' @ Value member @ '' does not exist'') s1
               | Some None \<Rightarrow> Done None s1
               | Some (Some m) \<Rightarrow>
                   (case objAt s1 m of
                      Some (FunctionObject ps body e c t r) \<Rightarrow> With m a s1
                    | _ \<Rightarrow> Done (Some m) s1))))"

text \<open>
  \<^verbatim>\<open>Eval\<close>: the type switch over the node. The fuel bounds the depth of the calls. The
  last line of the Go function (\<^verbatim>\<open>Unknown node\<close>) is for node types that are not listed,
  and the datatype has none. On a \<^verbatim>\<open>nil\<close> pointer of a statement type the case of that
  type is taken and its first field access panics.
\<close>

primrec Eval :: "'f host \<Rightarrow> nat \<Rightarrow> 'f evaluator" where
  "Eval h 0 = (\<lambda>node environment s. OutOfFuel)"
| "Eval h (Suc n) = (\<lambda>node environment s.
     case node of
       Program statements c \<Rightarrow> evalProgram (Eval h n) statements c environment s
     | ExpressionStatement expression \<Rightarrow> Eval h n expression environment s
     | StringLiteral v \<Rightarrow> new (StringObject v) s
     | IntegerLiteral v \<Rightarrow> new (IntegerObject v) s
     | FloatLiteral v \<Rightarrow> new (FloatObject v) s
     | BooleanLiteral v \<Rightarrow> new (BooleanObject v) s
     | NullLiteral \<Rightarrow> new NullObject s
     | VoidLiteral \<Rightarrow> Done None s
     | Identifier identifier \<Rightarrow> evalIdentifierExpression identifier environment s
     | InfixExpression left operator right \<Rightarrow>
         evalInfixExpression h (Eval h n) left operator right environment s
     | PrefixExpression operator expression \<Rightarrow>
         evalPrefixExpression h (Eval h n) operator expression environment s
     | CallExpression function arguments \<Rightarrow>
         evalCallExpression h (Eval h n) function arguments environment s
     | AssignmentExpression name expression \<Rightarrow>
         evalAssignmentExpression (Eval h n) name expression environment s
     | LetStatement letToken name t value \<Rightarrow>
         evalLetStatement (Eval h n) name value environment s
     | FunctionDefinitionStatement funcToken name parameters returnType body functionContext
         functionType thisType \<Rightarrow>
         evalFunctionDefinitionStatement name parameters body functionContext functionType
           thisType environment s
     | ReturnStatement returnToken expression \<Rightarrow>
         evalReturnStatement (Eval h n) expression environment s
     | BlockStatement statements lBraceToken rBraceToken c \<Rightarrow>
         evalBlockStatement (Eval h n) statements c environment s
     | IfStatement ifToken condition statement alternative statementContext
         alternativeContext \<Rightarrow>
         evalIfStatement h (Eval h n) condition statement alternative statementContext
           alternativeContext environment s
     | WhileStatement whileToken condition statement statementContext \<Rightarrow>
         evalWhileStatement h (Eval h n) whileToken condition statement statementContext
           environment s
     | IncrementExpression name operator pre \<Rightarrow>
         evalIncrementExpression h name operator pre environment s
     | MemberAccessExpression expression member \<Rightarrow>
         evalMemberAccessExpression h (Eval h n) expression member environment s
     | TypeDefinitionStatement \<Rightarrow> Done None s
     | NilNode \<Rightarrow> Panic ''runtime error: invalid memory address or nil pointer dereference'')"

subsection \<open>Calling a function, and a host to run programs on\<close>

text \<open>
  Modelled from the spec: \<^verbatim>\<open>Function.Execute\<close> is not in the source files at hand. The
  spec: the function is invoked with the bound receiver (if any) prepended to the
  arguments; the parameters are bound in a child scope of the environment the function
  captured, and the result of evaluating the body there is the result of \<^verbatim>\<open>Execute\<close>.
  The spec does not say what happens when the numbers of parameters and arguments
  differ (the parser checks calls); here the parameters left over stay unbound.
\<close>

fun bindParameters :: "nat \<Rightarrow> Identifier list \<Rightarrow> nat option list \<Rightarrow> 'f state \<Rightarrow> 'f state" where
  "bindParameters e (p # ps) (a # as) s = bindParameters e ps as (DefineObject e (Value p) a s)"
| "bindParameters e ps as s = s"

definition ExecuteFunction ::
  "'f evaluator \<Rightarrow> nat \<Rightarrow> nat option list \<Rightarrow> 'f state \<Rightarrow> (nat option, 'f state) outcome" where
  "ExecuteFunction ev f arguments s =
     (case objAt s f of
        Some (FunctionObject ps body e c t r) \<Rightarrow>
          (case ExtendEnvironment e c s of
             (e', s1) \<Rightarrow>
               ev body e'
                 (bindParameters e' ps
                    (case r of Some this \<Rightarrow> Some this # arguments | None \<Rightarrow> arguments) s1))
      | _ \<Rightarrow> Panic ''Execute on an object that is not a function'')"

text \<open>
  A host for running the model on concrete programs: its floats are the rationals with
  exact arithmetic (on the small values of the examples below \<^verbatim>\<open>float64\<close> computes the
  same), a string renders as itself, and it calls functions as the spec describes. The
  theorems below hold for every host; this one serves their examples.
\<close>

definition exactHost :: "rat host" where
  "exactHost =
     \<lparr>fneg = uminus, fadd = (+), fsub = (-), fmul = (*), fdiv = (/),
      flt = (<), fgt = (\<lambda>a b. b < a), fle = (\<le>), fge = (\<lambda>a b. b \<le> a), feq = (=),
      ofInt64 = (\<lambda>i. of_int (sint i)),
      ToString = (\<lambda>s a. case objAt s a of Some (StringObject v) \<Rightarrow> v | _ \<Rightarrow> ''?''),
      TypeOf = (\<lambda>s a. case objAt s a of
                  Some (IntegerObject v) \<Rightarrow> IntegerType
                | Some (FloatObject v) \<Rightarrow> FloatType
                | Some (StringObject v) \<Rightarrow> StringType
                | Some (BooleanObject v) \<Rightarrow> BooleanType
                | _ \<Rightarrow> VoidType),
      DeepEqualStructs = (\<lambda>s a b. objAt s a = objAt s b),
      Execute = ExecuteFunction\<rparr>"

text \<open>
  Modelled from the spec: \<^verbatim>\<open>NewEnvironment\<close> (called by the test of the evaluator) is not
  in the source files at hand. The state it leaves: no object, and one environment with no
  parent and no binding, at address \<open>0\<close>.
\<close>

definition NewEnvironment :: "'f state" where
  "NewEnvironment =
     \<lparr>objs = [], envs = [\<lparr>store = Map.empty, parent = None, ctx = None\<rparr>], members = Map.empty\<rparr>"

section \<open>The statement parser\<close>

subsection \<open>The parser's state\<close>

text \<open>
  Modelled from the spec: the \<^verbatim>\<open>Context\<close> struct and its operations are not in the
  source files at hand. The spec: a context is a node in a tree of scopes that holds a
  mapping from names to types scoped to itself, a parent reference, and the declared
  return type of the enclosing function; a name may be defined again in a child scope but
  not twice in one scope. \<^verbatim>\<open>statement_parser.go\<close> uses \<^verbatim>\<open>GetInThisScope\<close>,
  \<^verbatim>\<open>Define\<close>, \<^verbatim>\<open>ExtendContext\<close> (a new child), \<^verbatim>\<open>CloneContext\<close> (a copy) and the
  field \<^verbatim>\<open>returnType\<close>. Contexts are shared by pointer and changed in place, so the
  parser's state keeps them in an arena. Every definition of this subsection is modelled
  from the spec and from the way \<^verbatim>\<open>statement_parser.go\<close> calls it.
\<close>

record Context =
  types :: "string \<rightharpoonup> Type"
  parentContext :: "nat option"
  returnType :: "Type option"

record ParseError =
  ErrorToken :: "Token option"
  Message :: string

text \<open>
  Modelled from the spec: the \<^verbatim>\<open>Parser\<close> struct is not in the source files at hand. The
  spec: the token source supplies tokens on demand with one token of lookahead
  (\<^verbatim>\<open>current\<close>, \<^verbatim>\<open>peek\<close>, \<^verbatim>\<open>consume\<close>), and the parser accumulates a list of
  diagnostics (token and message). Past the last token the source gives \<^verbatim>\<open>EOF\<close>.
\<close>

record Parser =
  tokens :: "Token list"
  position :: nat
  errors :: "ParseError list"
  contexts :: "Context list"

definition tokenAt :: "Parser \<Rightarrow> nat \<Rightarrow> Token" where
  "tokenAt p i = (if i < length (tokens p) then tokens p ! i else \<lparr>Type = token_EOF, Literal = []\<rparr>)"

definition current :: "Parser \<Rightarrow> Token" where
  "current p = tokenAt p (position p)"

definition peek :: "Parser \<Rightarrow> Token" where
  "peek p = tokenAt p (Suc (position p))"

text \<open>
  Modelled from the spec: \<^verbatim>\<open>consume\<close> is not in the source files at hand. It moves to the
  next token and returns the one it leaves: the callers keep its result as the statement's
  first token (\<^verbatim>\<open>ReturnToken: parser.consume()\<close>), and go on with the token after it.
\<close>

definition consume :: "Parser \<Rightarrow> Token \<times> Parser" where
  "consume p = (current p, p\<lparr>position := Suc (position p)\<rparr>)"

text \<open>
  Modelled from the spec: \<^verbatim>\<open>Parser.error\<close> is not in the source files at hand. It records
  a diagnostic, a token and a message, at the end of the parser's list.
\<close>

definition error :: "Token option \<Rightarrow> string \<Rightarrow> Parser \<Rightarrow> Parser" where
  "error t message p = p\<lparr>errors := errors p @ [\<lparr>ErrorToken = t, Message = message\<rparr>]\<rparr>"

text \<open>
  Modelled from the spec: \<^verbatim>\<open>assertNext\<close> is not in the source files at hand. As its
  callers use it: when the next token has the given type the parser moves onto it and the
  result is true; otherwise a diagnostic is recorded (a malformed construct records a
  diagnostic and the statement is \<^verbatim>\<open>nil\<close>) and the result is false. The text of that
  diagnostic is not known.
\<close>

definition assertNext :: "TokenType \<Rightarrow> Parser \<Rightarrow> bool \<times> Parser" where
  "assertNext t p =
     (if Type (peek p) = t then (True, snd (consume p))
      else (False, error (Some (peek p)) ''Unexpected token'' p))"

definition GetInThisScope :: "Parser \<Rightarrow> nat \<Rightarrow> string \<Rightarrow> Type option" where
  "GetInThisScope p c name = (if c < length (contexts p) then types (contexts p ! c) name else None)"

definition Define :: "nat \<Rightarrow> string \<Rightarrow> Type \<Rightarrow> Parser \<Rightarrow> Parser" where
  "Define c name t p =
     p\<lparr>contexts := (contexts p)[c := (contexts p ! c)\<lparr>types := (types (contexts p ! c))(name \<mapsto> t)\<rparr>]\<rparr>"

definition ExtendContext :: "nat \<Rightarrow> Parser \<Rightarrow> nat \<times> Parser" where
  "ExtendContext c p =
     (length (contexts p),
      p\<lparr>contexts := contexts p @ [\<lparr>types = Map.empty, parentContext = Some c, returnType = None\<rparr>]\<rparr>)"

definition CloneContext :: "nat \<Rightarrow> Parser \<Rightarrow> nat \<times> Parser" where
  "CloneContext c p = (length (contexts p), p\<lparr>contexts := contexts p @ [contexts p ! c]\<rparr>)"

definition setReturnType :: "nat \<Rightarrow> Type option \<Rightarrow> Parser \<Rightarrow> Parser" where
  "setReturnType c t p = p\<lparr>contexts := (contexts p)[c := (contexts p ! c)\<lparr>returnType := t\<rparr>]\<rparr>"

text \<open>
  Modelled from the spec: \<^verbatim>\<open>Type.IsAssignable\<close> is not in the source files at hand. The
  spec: assignability is reflexive for identical variants, the bottom type is assignable
  to everything, and it is variant-exact otherwise.
\<close>

definition isNever :: "Type \<Rightarrow> bool" where
  "isNever t = (case t of NeverType message \<Rightarrow> True | _ \<Rightarrow> False)"

definition IsAssignable :: "Type \<Rightarrow> Type \<Rightarrow> bool" where
  "IsAssignable target source = (source = target \<or> isNever source)"

text \<open>
  What the statement parser calls in files that are not at hand: the expression parser
  (it starts on the first token of the expression and stops on its last), the type
  parser, the parameter-list parser, the return analysis, and the methods \<^verbatim>\<open>Type\<close> and
  \<^verbatim>\<open>Token\<close> of an expression and \<^verbatim>\<open>ToString\<close> of a type.
\<close>

record 'f parserHost =
  parseExpression :: "nat \<Rightarrow> Parser \<Rightarrow> ('f Node, Parser) outcome"
  parseType :: "Parser \<Rightarrow> (Type option, Parser) outcome"
  parseParameterList :: "Parser \<Rightarrow> (Parameter list option, Parser) outcome"
  doesReturn :: "nat \<Rightarrow> 'f Node \<Rightarrow> Parser \<Rightarrow> (bool, Parser) outcome"
  TypeOfExpression :: "'f Node \<Rightarrow> nat \<Rightarrow> Parser \<Rightarrow> (Type, Parser) outcome"
  TokenOf :: "'f Node \<Rightarrow> Token option"
  TypeToString :: "Type \<Rightarrow> string"

subsection \<open>One function of the model per function of \<^verbatim>\<open>statement_parser.go\<close>\<close>

text \<open>
  A parse function returns the statement or \<^verbatim>\<open>nil\<close> (\<open>None\<close>). The functions that call
  \<^verbatim>\<open>parseStatement\<close> take it as their argument \<open>ps\<close>.
\<close>

type_synonym 'f statementParser = "nat \<Rightarrow> Parser \<Rightarrow> ('f Node option, Parser) outcome"

definition parseExpressionStatement :: "'f parserHost \<Rightarrow> 'f statementParser" where
  "parseExpressionStatement H context p =
     andThen (parseExpression H context p) (\<lambda>expression p1.
       case assertNext token_Semi p1 of
         (False, p2) \<Rightarrow> Done None p2
       | (True, p2) \<Rightarrow> Done (Some (ExpressionStatement expression)) p2)"

definition parseReturnStatement :: "'f parserHost \<Rightarrow> 'f statementParser" where
  "parseReturnStatement H context p =
     (case consume p of
        (returnToken, p1) \<Rightarrow>
          if Type (current p1) = token_Semi
          then Done (Some (ReturnStatement (Some returnToken) VoidLiteral)) p1
          else
            andThen (parseExpression H context p1) (\<lambda>expression p2.
              case assertNext token_Semi p2 of
                (False, p3) \<Rightarrow> Done None p3
              | (True, p3) \<Rightarrow> Done (Some (ReturnStatement (Some returnToken) expression)) p3))"

text \<open>
  The loop of \<^verbatim>\<open>parseBlockStatement\<close>; its fuel bounds the number of turns. A statement
  that is \<^verbatim>\<open>nil\<close> is left out, and the parser goes on.
\<close>

primrec blockLoop ::
  "nat \<Rightarrow> 'f statementParser \<Rightarrow> nat \<Rightarrow> 'f Node list \<Rightarrow> Parser \<Rightarrow> ('f Node list, Parser) outcome" where
  "blockLoop 0 ps context statements p = OutOfFuel"
| "blockLoop (Suc k) ps context statements p =
     (if Type (current p) \<noteq> token_EOF \<and> Type (current p) \<noteq> token_RBrace then
        (if Type (current p) = token_Semi then blockLoop k ps context statements (snd (consume p))
         else
           andThen (ps context p) (\<lambda>statement p1.
             blockLoop k ps context
               (case statement of Some st \<Rightarrow> statements @ [st] | None \<Rightarrow> statements)
               (snd (consume p1))))
      else Done statements p)"

definition parseBlockStatement :: "nat \<Rightarrow> 'f statementParser \<Rightarrow> 'f statementParser" where
  "parseBlockStatement k ps context p =
     (case consume p of
        (openingBrace, p1) \<Rightarrow>
          andThen (blockLoop k ps context [] p1) (\<lambda>statements p2.
            if Type (current p2) \<noteq> token_RBrace
            then Done (Some (BlockStatement statements (Some openingBrace) None None))
                   (error (Some openingBrace) ''Unclosed block'' p2)
            else Done (Some (BlockStatement statements (Some openingBrace) (Some (current p2)) None))
                   p2))"

definition parseLetStatement :: "'f parserHost \<Rightarrow> 'f statementParser" where
  "parseLetStatement H context p =
     (case assertNext token_Ident p of
        (False, p1) \<Rightarrow> Done None p1
      | (True, p1) \<Rightarrow>
          (let identToken = current p1;
               name = Literal identToken;
               afterValue = (\<lambda>declared value p4.
                 case assertNext token_Semi p4 of
                   (False, p5) \<Rightarrow> Done None p5
                 | (True, p5) \<Rightarrow>
                     (case GetInThisScope p5 context name of
                        Some t \<Rightarrow>
                          Done None (error (Some identToken)
                            (''Cannot redefine '' @ [CHR 0x27] @ name @ [CHR 0x27]) p5)
                      | None \<Rightarrow>
                          andThen (TypeOfExpression H value context p5) (\<lambda>inferredType p6.
                            case declared of
                              None \<Rightarrow>
                                Done (Some (LetStatement (Some (current p))
                                        \<lparr>IdentToken = Some identToken, Value = name\<rparr>
                                        (Some inferredType) value))
                                  (Define context name inferredType p6)
                            | Some t \<Rightarrow>
                                if \<not> IsAssignable t inferredType then
                                  Done None
                                    (if \<not> isNever t then
                                       error (case TokenOf H value of
                                                None \<Rightarrow> Some (current p6)
                                              | Some erroneousToken \<Rightarrow> Some erroneousToken)
                                         (''Type '' @ [CHR 0x27] @ TypeToString H inferredType
                                            @ [CHR 0x27] @ '' is not assignable to ''
                                            @ [CHR 0x27] @ TypeToString H t @ [CHR 0x27]) p6
                                     else p6)
                                else
                                  Done (Some (LetStatement (Some (current p))
                                          \<lparr>IdentToken = Some identToken, Value = name\<rparr>
                                          (Some t) value))
                                    (Define context name t p6))));
               afterType = (\<lambda>declared assignmentToken p3.
                 if Type (peek p3) \<noteq> token_Semi then
                   (case assertNext assignmentToken p3 of
                      (False, p4) \<Rightarrow> Done None p4
                    | (True, p4) \<Rightarrow>
                        andThen (parseExpression H context (snd (consume p4))) (afterValue declared))
                 else afterValue declared NullLiteral p3)
           in
             if Type (peek p1) = token_Colon then
               (let p2 = snd (consume p1); typeToken = peek p2 in
                andThen (parseType H p2) (\<lambda>declared p3.
                  case declared of
                    None \<Rightarrow> Done None p3
                  | Some t \<Rightarrow>
                      afterType (Some t) token_Assign
                        (case t of
                           NeverType message \<Rightarrow> error (Some typeToken) message p3
                         | _ \<Rightarrow> p3)))
             else afterType None token_Define p1))"

definition parseFunctionDefinitionStatement ::
  "'f parserHost \<Rightarrow> nat \<Rightarrow> 'f statementParser \<Rightarrow> 'f statementParser" where
  "parseFunctionDefinitionStatement H k ps context p =
     (case assertNext token_Ident p of
        (False, p1) \<Rightarrow> Done None p1
      | (True, p1) \<Rightarrow>
          (let name = Literal (current p1) in
           case assertNext token_LParen p1 of
             (False, p2) \<Rightarrow> Done None p2
           | (True, p2) \<Rightarrow>
               andThen (parseParameterList H p2) (\<lambda>parameters p3.
                 case parameters of
                   None \<Rightarrow> Done None p3
                 | Some parameters' \<Rightarrow>
                     (let afterReturnType = (\<lambda>returnType p5.
                        case ExtendContext context p5 of
                          (functionContext, p6) \<Rightarrow>
                            (let p7 = setReturnType functionContext (Some returnType) p6;
                                 p8 = fold (\<lambda>parameter.
                                        Define functionContext (Value (Name parameter))
                                          (ParamType parameter)) parameters' p7;
                                 p9 = Define context name
                                        (FunctionType (map ParamType parameters') returnType) p8
                             in
                               case CloneContext functionContext p9 of
                                 (bodyContext, p10) \<Rightarrow>
                                   andThen (parseBlockStatement k ps bodyContext p10) (\<lambda>body p11.
                                     case body of
                                       None \<Rightarrow> Done None p11
                                     | Some body' \<Rightarrow>
                                         (let statement =
                                            FunctionDefinitionStatement (Some (current p))
                                              \<lparr>IdentToken = Some (current p1), Value = name\<rparr>
                                              parameters' (Some returnType) body' None None None
                                          in
                                            if returnType \<noteq> VoidType then
                                              (case CloneContext functionContext p11 of
                                                 (analysisContext, p12) \<Rightarrow>
                                                   andThen (doesReturn H analysisContext body' p12)
                                                     (\<lambda>returns p13.
                                                       if \<not> returns then
                                                         Done (Some statement)
                                                           (error
                                                              (case body' of
                                                                 BlockStatement sts lBrace rBrace c \<Rightarrow>
                                                                   (case rBrace of
                                                                      None \<Rightarrow> lBrace
                                                                    | Some r \<Rightarrow> Some r)
                                                               | _ \<Rightarrow> None)
                                                              ''Missing return statement'' p13)
                                                       else Done (Some statement) p13))
                                            else Done (Some statement) p11))))
                      in
                        if Type (peek p3) = token_LBrace
                        then afterReturnType VoidType (snd (consume p3))
                        else
                          andThen (parseType H p3) (\<lambda>returnType p4.
                            case returnType of
                              None \<Rightarrow> Done None p4
                            | Some t \<Rightarrow>
                                (case assertNext token_LBrace p4 of
                                   (False, p5) \<Rightarrow> Done None p5
                                 | (True, p5) \<Rightarrow> afterReturnType t p5))))))"

text \<open>
  A statement field of the node takes what \<^verbatim>\<open>parseStatement\<close> returns, a \<^verbatim>\<open>nil\<close>
  included.
\<close>

definition orNil :: "'f Node option \<Rightarrow> 'f Node" where
  "orNil statement = (case statement of Some st \<Rightarrow> st | None \<Rightarrow> NilNode)"

definition parseIfStatement :: "'f parserHost \<Rightarrow> 'f statementParser \<Rightarrow> 'f statementParser" where
  "parseIfStatement H ps context p =
     (case consume p of
        (ifToken, p1) \<Rightarrow>
          andThen (parseExpression H context p1) (\<lambda>condition p2.
            case ExtendContext context (snd (consume p2)) of
              (statementContext, p3) \<Rightarrow>
                andThen (ps statementContext p3) (\<lambda>statement p4.
                  if Type (peek p4) = token_Else then
                    (case ExtendContext context (snd (consume (snd (consume p4)))) of
                       (alternativeContext, p5) \<Rightarrow>
                         andThen (ps alternativeContext p5) (\<lambda>alternative p6.
                           Done (Some (IfStatement (Some ifToken) condition (orNil statement)
                                   (Some (orNil alternative)) None None)) p6))
                  else
                    Done (Some (IfStatement (Some ifToken) condition (orNil statement)
                            None None None)) p4)))"

definition parseWhileStatement :: "'f parserHost \<Rightarrow> 'f statementParser \<Rightarrow> 'f statementParser" where
  "parseWhileStatement H ps context p =
     (case consume p of
        (whileToken, p1) \<Rightarrow>
          andThen (parseExpression H context p1) (\<lambda>condition p2.
            case ExtendContext context (snd (consume p2)) of
              (statementContext, p3) \<Rightarrow>
                andThen (ps statementContext p3) (\<lambda>statement p4.
                  Done (Some (WhileStatement (Some whileToken) condition (orNil statement) None))
                    p4)))"

text \<open>
  \<^verbatim>\<open>parseStatement\<close>: the switch over the type of the current token. The fuel bounds the
  depth of the calls and the turns of each block's loop.
\<close>

primrec parseStatement :: "'f parserHost \<Rightarrow> nat \<Rightarrow> 'f statementParser" where
  "parseStatement H 0 = (\<lambda>context p. OutOfFuel)"
| "parseStatement H (Suc n) = (\<lambda>context p.
     case Type (current p) of
       token_Let \<Rightarrow> parseLetStatement H context p
     | token_Return \<Rightarrow> parseReturnStatement H context p
     | token_Func \<Rightarrow> parseFunctionDefinitionStatement H n (parseStatement H n) context p
     | token_LBrace \<Rightarrow> parseBlockStatement n (parseStatement H n) context p
     | token_If \<Rightarrow> parseIfStatement H (parseStatement H n) context p
     | token_While \<Rightarrow> parseWhileStatement H (parseStatement H n) context p
     | _ \<Rightarrow> parseExpressionStatement H context p)"

text \<open>
  A parser host for running the model on concrete token lists. Its expression parser
  reads one token: an identifier, or else a string literal of the token's text; it has no
  type annotations and no parameters. The theorems below hold for every host; this one
  serves their examples.
\<close>

definition oneTokenHost :: "rat parserHost" where
  "oneTokenHost =
     \<lparr>parseExpression = (\<lambda>context p.
        Done (if Type (current p) = token_Ident
              then Identifier \<lparr>IdentToken = Some (current p), Value = Literal (current p)\<rparr>
              else StringLiteral (Literal (current p))) p),
      parseType = (\<lambda>p. Done None p),
      parseParameterList = (\<lambda>p. Done None p),
      doesReturn = (\<lambda>context body p. Done True p),
      TypeOfExpression = (\<lambda>expression context p.
        Done (case expression of StringLiteral v \<Rightarrow> StringType | _ \<Rightarrow> VoidType) p),
      TokenOf = (\<lambda>expression. None),
      TypeToString = (\<lambda>t. ''?'')\<rparr>"

text \<open>
  Modelled from the spec: \<^verbatim>\<open>NewContext\<close> (called by the test of the evaluator) is not in
  the source files at hand. A parser on a token list, with no diagnostic and one context
  with no parent and no name, at address \<open>0\<close>.
\<close>

definition newParser :: "Token list \<Rightarrow> Parser" where
  "newParser ts =
     \<lparr>tokens = ts, position = 0, errors = [],
      contexts = [\<lparr>types = Map.empty, parentContext = None, returnType = None\<rparr>]\<rparr>"

section \<open>Vocabulary of the properties\<close>

text \<open>The counterpart of \<^verbatim>\<open>isError\<close> for the other sentinel.\<close>

definition isReturn :: "'f state \<Rightarrow> nat option \<Rightarrow> bool" where
  "isReturn s object = (case deref s object of Some (ReturnObject r) \<Rightarrow> True | _ \<Rightarrow> False)"

definition isNumeric :: "'f Object option \<Rightarrow> bool" where
  "isNumeric object =
     (case object of Some (IntegerObject v) \<Rightarrow> True | Some (FloatObject v) \<Rightarrow> True | _ \<Rightarrow> False)"

text \<open>
  The spec's words for the numeric operators, to compare the code with: the operators
  that compute a number are \<^verbatim>\<open>+ - * /\<close>, those that order two numbers are
  \<^verbatim>\<open>< > <= >=\<close>; on two Floats each is the host's operation, with a Float or a Boolean
  as its result; on two Integers an arithmetic operator gives an Integer.
\<close>

definition arithmeticOperators :: "TokenType list" where
  "arithmeticOperators = [token_Plus, token_Minus, token_Star, token_Slash]"

definition numericOperators :: "TokenType list" where
  "numericOperators = arithmeticOperators @ [token_LT, token_GT, token_LTE, token_GTE]"

definition floatOperation :: "'f host \<Rightarrow> TokenType \<Rightarrow> 'f \<Rightarrow> 'f \<Rightarrow> 'f Object" where
  "floatOperation h operator x y =
     (if operator = token_Plus then FloatObject (fadd h x y)
      else if operator = token_Minus then FloatObject (fsub h x y)
      else if operator = token_Star then FloatObject (fmul h x y)
      else if operator = token_Slash then FloatObject (fdiv h x y)
      else if operator = token_LT then BooleanObject (flt h x y)
      else if operator = token_GT then BooleanObject (fgt h x y)
      else if operator = token_LTE then BooleanObject (fle h x y)
      else BooleanObject (fge h x y))"

definition integerOperation :: "TokenType \<Rightarrow> int64 \<Rightarrow> int64 \<Rightarrow> 'f Object" where
  "integerOperation operator x y =
     (if operator = token_Plus then IntegerObject (x + y)
      else if operator = token_Minus then IntegerObject (x - y)
      else if operator = token_Star then IntegerObject (x * y)
      else IntegerObject (word_of_int (sint x sdiv sint y)))"

section \<open>Programs and states of the examples\<close>

text \<open>An identifier node built by hand has no token.\<close>

definition ident :: "string \<Rightarrow> Identifier" where
  "ident name = \<lparr>IdentToken = None, Value = name\<rparr>"

text \<open>
  The state after \<^verbatim>\<open>func middle(a, x, b) { return x; }\<close> in the root environment: the
  function object at address \<open>0\<close>, bound to \<open>middle\<close>.
\<close>

definition middleState :: "rat state" where
  "middleState =
     \<lparr>objs = [FunctionObject [ident ''a'', ident ''x'', ident ''b'']
                (BlockStatement [ReturnStatement None (Identifier (ident ''x''))] None None None)
                0 None None None],
      envs = [\<lparr>store = [''middle'' \<mapsto> Some 0], parent = None, ctx = None\<rparr>],
      members = Map.empty\<rparr>"

text \<open>
  The state after \<^verbatim>\<open>func g() { while true { if true { return 7; } } }\<close> in the root
  environment, and the blocks of the body of \<open>g\<close> from the inside out.
\<close>

definition returnSeven :: "rat Node" where
  "returnSeven = BlockStatement [ReturnStatement None (IntegerLiteral 7)] None None None"

definition loopIf :: "rat Node" where
  "loopIf = BlockStatement [IfStatement None (BooleanLiteral True) returnSeven None None None]
              None None None"

definition loopWhile :: "rat Node" where
  "loopWhile = BlockStatement [WhileStatement None (BooleanLiteral True) loopIf None] None None None"

definition loopState :: "rat state" where
  "loopState =
     \<lparr>objs = [FunctionObject [] loopWhile 0 None None None],
      envs = [\<lparr>store = [''g'' \<mapsto> Some 0], parent = None, ctx = None\<rparr>],
      members = Map.empty\<rparr>"

text \<open>The statement \<^verbatim>\<open>5 + 5;\<close> of the evaluator's test.\<close>

definition fivePlusFive :: "rat Node" where
  "fivePlusFive = ExpressionStatement (InfixExpression (IntegerLiteral 5) token_Plus (IntegerLiteral 5))"

text \<open>
  The state after \<^verbatim>\<open>let x = 5; let n;\<close> in the root environment: \<open>x\<close> is bound to the
  Integer at address \<open>0\<close>, \<open>n\<close> to the Null at address \<open>1\<close>.
\<close>

definition counterState :: "rat state" where
  "counterState =
     \<lparr>objs = [IntegerObject 5, NullObject],
      envs = [\<lparr>store = [''x'' \<mapsto> Some 0, ''n'' \<mapsto> Some 1], parent = None, ctx = None\<rparr>],
      members = Map.empty\<rparr>"

text \<open>
  Token lists for the parser. \<open>letX v\<close> is \<^verbatim>\<open>let x := "v";\<close>; the three lists are
  \<^verbatim>\<open>{ let x := "a"; { let x := "b"; } }\<close>, \<^verbatim>\<open>{ let x := "a"; if x { let x := "b"; } }\<close>
  and \<^verbatim>\<open>{ let x := "a"; let x := "b"; }\<close>. \<open>letNode\<close> and \<open>blockNode\<close> are the nodes that
  the parser builds for such a let statement and for a block, and \<open>redefined\<close> is the
  diagnostic of \<^verbatim>\<open>parseLetStatement\<close> for \<open>x\<close>.
\<close>

definition mkToken :: "TokenType \<Rightarrow> string \<Rightarrow> Token" where
  "mkToken t l = \<lparr>Type = t, Literal = l\<rparr>"

definition letX :: "string \<Rightarrow> Token list" where
  "letX v = [mkToken token_Let ''let'', mkToken token_Ident ''x'', mkToken token_Define '':='',
             mkToken (token_Other ''String'') v, mkToken token_Semi '';'']"

definition nestedBlock :: "Token list" where
  "nestedBlock = [mkToken token_LBrace ''{''] @ letX ''a''
     @ [mkToken token_LBrace ''{''] @ letX ''b'' @ [mkToken token_RBrace ''}'']
     @ [mkToken token_RBrace ''}'']"

definition nestedIf :: "Token list" where
  "nestedIf = [mkToken token_LBrace ''{''] @ letX ''a''
     @ [mkToken token_If ''if'', mkToken token_Ident ''x'', mkToken token_LBrace ''{''] @ letX ''b''
     @ [mkToken token_RBrace ''}'']
     @ [mkToken token_RBrace ''}'']"

definition sameScope :: "Token list" where
  "sameScope = [mkToken token_LBrace ''{''] @ letX ''a'' @ letX ''b'' @ [mkToken token_RBrace ''}'']"

definition letNode :: "string \<Rightarrow> rat Node" where
  "letNode v = LetStatement (Some (mkToken token_Let ''let''))
     \<lparr>IdentToken = Some (mkToken token_Ident ''x''), Value = ''x''\<rparr> (Some StringType) (StringLiteral v)"

definition blockNode :: "rat Node list \<Rightarrow> rat Node" where
  "blockNode statements = BlockStatement statements (Some (mkToken token_LBrace ''{''))
     (Some (mkToken token_RBrace ''}'')) None"

definition redefined :: ParseError where
  "redefined = \<lparr>ErrorToken = Some (mkToken token_Ident ''x''),
                Message = ''Cannot redefine '' @ [CHR 0x27] @ ''x'' @ [CHR 0x27]\<rparr>"

text \<open>The parser after it moved to the next token.\<close>

definition moved :: "Parser \<Rightarrow> Parser" where
  "moved p = p\<lparr>position := Suc (position p)\<rparr>"

text \<open>The state after a child of environment \<open>e\<close> was created, and after an object was allocated.\<close>

definition extended :: "nat \<Rightarrow> 'f state \<Rightarrow> 'f state" where
  "extended e s = snd (ExtendEnvironment e None s)"

definition allocated :: "'f Object \<Rightarrow> 'f state \<Rightarrow> 'f state" where
  "allocated v s = s\<lparr>objs := objs s @ [v]\<rparr>"

section \<open>Properties of the evaluator\<close>

lemma andThen_simps [simp]:
  "andThen (Done x s) k = k x s"
  "andThen (Panic m) k = Panic m"
  "andThen OutOfFuel k = OutOfFuel"
  by (simp_all add: andThen_def)

lemma deref_simps [simp]:
  "deref s None = None"
  "deref s (Some a) = objAt s a"
  by (simp_all add: deref_def)

text \<open>
  C1. For Integer objects \<open>a\<close> and \<open>b\<close>, \<^verbatim>\<open>a / b\<close> with \<open>b\<close> nonzero is the truncated integer
  quotient, and \<^verbatim>\<open>a / 0\<close> should be the Error sentinel. The code has no check of the
  divisor: on the two integer literals \<open>a\<close> and \<open>b\<close> the evaluation allocates the two
  operands and then, when \<open>b\<close> is zero, the host's division panics; otherwise the result is
  a new Integer object holding the quotient of the signed values truncated towards zero.
\<close>

theorem integer_division:
  "Eval h (Suc (Suc n)) (InfixExpression (IntegerLiteral a) token_Slash (IntegerLiteral b)) e s =
     (if b = 0 then Panic ''runtime error: integer divide by zero''
      else Done (Some (length (objs s) + 2))
             (s\<lparr>objs := objs s @ [IntegerObject a, IntegerObject b,
                IntegerObject (word_of_int (sint a sdiv sint b))]\<rparr>))"
  by (simp add: evalInfixExpression_def new_def isError_def infixOperator_def
      evalNumericInfix_def intDivide_def objAt_def nth_append)


subsection \<open>The two sentinels and the loops over statements and arguments\<close>

lemma isError_None [simp]: "\<not> isError s None"
  by (simp add: isError_def)

lemma isReturn_None [simp]: "\<not> isReturn s None"
  by (simp add: isReturn_def)

lemma isError_objAt: "objAt s a = Some (ErrorObject m) \<Longrightarrow> isError s (Some a)"
  by (simp add: isError_def)

lemma isReturn_objAt: "objAt s a = Some (ReturnObject r) \<Longrightarrow> isReturn s (Some a)"
  by (simp add: isReturn_def)

lemma Return_not_Error: "objAt s a = Some (ReturnObject r) \<Longrightarrow> \<not> isError s (Some a)"
  by (simp add: isError_def)

lemma blockStatements_Cons:
  "blockStatements ev (statement # statements) e s =
     andThen (ev statement e s) (\<lambda>object s1.
       if isError s1 object \<or> isReturn s1 object then Done object s1
       else blockStatements ev statements e s1)"
proof (cases "ev statement e s")
  case (Done object s1)
  then show ?thesis
  proof (cases "deref s1 object")
    case None
    with Done show ?thesis by (simp add: isError_def isReturn_def)
  next
    case (Some v)
    with Done show ?thesis by (cases v) (simp_all add: isError_def isReturn_def)
  qed
qed simp_all

lemma blockStatements_append:
  "blockStatements ev before e s = Done None s1 \<Longrightarrow>
   blockStatements ev (before @ rest) e s = blockStatements ev rest e s1"
proof (induction before arbitrary: s)
  case Nil
  then show ?case by simp
next
  case (Cons x xs)
  show ?case
  proof (cases "ev x e s")
    case (Done object s')
    with Cons.prems have "\<not> (isError s' object \<or> isReturn s' object)"
      by (auto simp: blockStatements_Cons simp del: blockStatements.simps)
    with Cons Done show ?thesis
      by (simp add: blockStatements_Cons del: blockStatements.simps)
  next
    case (Panic m)
    with Cons.prems show ?thesis by simp
  next
    case OutOfFuel
    with Cons.prems show ?thesis by simp
  qed
qed

lemma programStatements_Cons:
  "programStatements ev (statement # statements) e s =
     andThen (ev statement e s) (\<lambda>result s1.
       if isError s1 result then Done result s1
       else programStatements ev statements e s1)"
proof (cases "ev statement e s")
  case (Done object s1)
  then show ?thesis
  proof (cases "deref s1 object")
    case None
    with Done show ?thesis by (simp add: isError_def)
  next
    case (Some v)
    with Done show ?thesis by (cases v) (simp_all add: isError_def)
  qed
qed simp_all

lemma programStatements_append:
  "programStatements ev before e s = Done None s1 \<Longrightarrow>
   programStatements ev (before @ rest) e s = programStatements ev rest e s1"
proof (induction before arbitrary: s)
  case Nil
  then show ?case by simp
next
  case (Cons x xs)
  show ?case
  proof (cases "ev x e s")
    case (Done object s')
    with Cons.prems have "\<not> isError s' object"
      by (auto simp: programStatements_Cons simp del: programStatements.simps)
    with Cons Done show ?thesis
      by (simp add: programStatements_Cons del: programStatements.simps)
  next
    case (Panic m)
    with Cons.prems show ?thesis by simp
  next
    case OutOfFuel
    with Cons.prems show ?thesis by simp
  qed
qed

lemma programStatements_result:
  "programStatements ev statements e s = Done result s' \<Longrightarrow> result = None \<or> isError s' result"
proof (induction statements arbitrary: s)
  case Nil
  then show ?case by simp
next
  case (Cons x xs)
  show ?case
  proof (cases "ev x e s")
    case (Done object s1)
    with Cons show ?thesis
      by (auto simp: programStatements_Cons simp del: programStatements.simps split: if_splits)
  next
    case (Panic m)
    with Cons.prems show ?thesis by simp
  next
    case OutOfFuel
    with Cons.prems show ?thesis by simp
  qed
qed

lemma evalArguments_acc:
  "evalArguments ev arguments e acc s =
     andThen (evalArguments ev arguments e [] s) (\<lambda>objects s'. Done (acc @ objects) s')"
proof (induction arguments arbitrary: acc s)
  case Nil
  then show ?case by simp
next
  case (Cons a as)
  show ?case
  proof (cases "ev a e s")
    case (Done object s1)
    have "evalArguments ev as e (acc @ [object]) s1 =
            andThen (evalArguments ev as e [] s1) (\<lambda>objects s'. Done ((acc @ [object]) @ objects) s')"
      by (rule Cons.IH)
    moreover have "evalArguments ev as e [object] s1 =
            andThen (evalArguments ev as e [] s1) (\<lambda>objects s'. Done ([object] @ objects) s')"
      by (rule Cons.IH)
    ultimately show ?thesis using Done
      by (cases "evalArguments ev as e [] s1") simp_all
  qed simp_all
qed

lemma evalArguments_append:
  "evalArguments ev before e [] s = Done objects s1 \<Longrightarrow>
   evalArguments ev (before @ rest) e [] s =
     andThen (evalArguments ev rest e [] s1) (\<lambda>objects' s'. Done (objects @ objects') s')"
proof (induction before arbitrary: s objects)
  case Nil
  then show ?case by (cases "evalArguments ev rest e [] s") simp_all
next
  case (Cons a as)
  show ?case
  proof (cases "ev a e s")
    case (Done object s')
    from Cons.prems Done obtain tl where tl: "evalArguments ev as e [] s' = Done tl s1"
      and objects: "objects = object # tl"
      by (simp add: evalArguments_acc [of ev as e "[object]"])
         (cases "evalArguments ev as e [] s'"; simp)
    have "evalArguments ev (as @ rest) e [] s' =
            andThen (evalArguments ev rest e [] s1) (\<lambda>objects' s'. Done (tl @ objects') s')"
      by (rule Cons.IH [OF tl])
    then show ?thesis using Done objects
      by (simp add: evalArguments_acc [of ev "as @ rest" e "[object]"])
         (cases "evalArguments ev rest e [] s1"; simp)
  next
    case (Panic m)
    with Cons.prems show ?thesis by simp
  next
    case OutOfFuel
    with Cons.prems show ?thesis by simp
  qed
qed

text \<open>
  The loop over the arguments, one argument at a time: when the \<open>i\<close>-th argument, evaluated
  in the \<open>i\<close>-th state, yields the \<open>i\<close>-th object and the next state, the loop appends all
  the objects, in the order of the arguments, and ends in the last state.
\<close>

lemma evalArguments_elementwise:
  assumes "length objects = length arguments"
    and "length states = Suc (length arguments)"
    and "\<forall>i<length arguments. ev (arguments ! i) e (states ! i) = Done (objects ! i) (states ! Suc i)"
  shows "evalArguments ev arguments e acc (states ! 0) = Done (acc @ objects) (last states)"
  using assms
proof (induction arguments arbitrary: objects states acc)
  case Nil
  then show ?case by (cases states) (simp_all add: last_conv_nth)
next
  case (Cons a as)
  from Cons.prems(1) obtain object os where objects: "objects = object # os"
    by (cases objects) simp_all
  from Cons.prems(2) obtain s0 rest where states: "states = s0 # rest"
    by (cases states) simp_all
  from Cons.prems(2) states have rest: "length rest = Suc (length as)" by simp
  from Cons.prems(3) have first: "ev a e s0 = Done object (rest ! 0)"
    using objects states by force
  have step: "\<forall>i<length as. ev (as ! i) e (rest ! i) = Done (os ! i) (rest ! Suc i)"
  proof (intro allI impI)
    fix i assume "i < length as"
    then have "Suc i < length (a # as)" by simp
    with Cons.prems(3) have "ev ((a # as) ! Suc i) e (states ! Suc i) = Done (objects ! Suc i) (states ! Suc (Suc i))"
      by blast
    then show "ev (as ! i) e (rest ! i) = Done (os ! i) (rest ! Suc i)"
      using objects states by simp
  qed
  from Cons.prems(1) objects have "length os = length as" by simp
  from Cons.IH [OF this rest step, of "acc @ [object]"]
  have "evalArguments ev as e (acc @ [object]) (rest ! 0) = Done (acc @ object # os) (last rest)"
    by simp
  moreover from rest have "rest \<noteq> []" by auto
  ultimately show ?case using first objects states by simp
qed

subsection \<open>Unfolding the model on a concrete program\<close>

lemmas run_defs =
  evalInfixExpression_def evalPrefixExpression_def evalIdentifierExpression_def
  evalCallExpression_def evalReturnStatement_def evalBlockStatement_def evalIfStatement_def
  evalWhileStatement_def evalProgram_def evalLetStatement_def evalAssignmentExpression_def
  evalIncrementExpression_def unwrapReturn_def sentinelOrNil_def
  new_def NewError_def isError_def isReturn_def objAt_def nth_append
  infixOperator_def evalNumericInfix_def intDivide_def implicitBoolConversion_def
  isString_def concatStrings_def evalEquals_def
  GetObject_def AssignObject_def DefineObject_def ExtendEnvironment_def ExecuteFunction_def
  NewEnvironment_def exactHost_def ident_def

lemmas state_defs = loopState_def extended_def allocated_def returnSeven_def loopIf_def loopWhile_def
  fivePlusFive_def

subsection \<open>Calls\<close>

lemma call_function:
  assumes "ev callee e s = Done (Some f) s1"
    and "objAt s1 f = Some (FunctionObject ps body fe c t r)"
    and "evalArguments ev arguments e [] s1 = Done objects s2"
  shows "evalCallExpression h ev callee arguments e s =
           andThen (Execute h ev f objects s2) unwrapReturn"
  using assms by (simp add: evalCallExpression_def)

text \<open>
  C2. When the callee of a call evaluates to a Function, the arguments are evaluated from
  left to right into a list and no result is checked for the Error sentinel. Let the
  \<open>i\<close>-th argument, evaluated in the state \<open>states ! i\<close> (the first of them the state the
  callee left, each of the others the state the argument before left), yield the object
  \<open>objects ! i\<close>, and let the object of the \<open>k\<close>-th argument be an Error object. Then
  every argument is evaluated, and the call is the callee's \<^verbatim>\<open>Execute\<close> on the list of all
  the objects, the Error at its place \<open>k\<close>, in the state after the last argument, followed
  by the unwrapping of a Return sentinel. The Error does not end the call.
\<close>

theorem call_passes_argument_errors:
  assumes "Eval h n callee e s = Done (Some f) s1"
    and "objAt s1 f = Some (FunctionObject ps body fe c t r)"
    and "length objects = length arguments"
    and "length states = Suc (length arguments)"
    and "states ! 0 = s1"
    and "\<forall>i<length arguments.
           Eval h n (arguments ! i) e (states ! i) = Done (objects ! i) (states ! Suc i)"
    and "k < length arguments"
    and "isError (states ! Suc k) (objects ! k)"
  shows "Eval h (Suc n) (CallExpression callee arguments) e s =
           andThen (Execute h (Eval h n) f objects (last states)) unwrapReturn"
proof -
  have "evalArguments (Eval h n) arguments e [] s1 = Done objects (last states)"
    using evalArguments_elementwise [where ev = "Eval h n" and e = e and acc = "[]", OF assms(3,4,6)]
      assms(5) by simp
  with assms(1,2) show ?thesis
    by (simp add: call_function)
qed

text \<open>
  An instance: in the state after \<^verbatim>\<open>func middle(a, x, b) { return x; }\<close>, the call
  \<^verbatim>\<open>middle(1, -true, 2)\<close>. The second argument evaluates to the Error object at address
  \<open>3\<close>; the third argument is evaluated after it, the body runs with \<open>a\<close>, \<open>x\<close> and \<open>b\<close>
  bound to the three objects, and the Error comes back as the result of the call.
\<close>

theorem call_passes_argument_errors_witness:
  "Eval exactHost 3 (Identifier (ident ''middle'')) 0 middleState = Done (Some 0) middleState
   \<and> Eval exactHost 3 (IntegerLiteral 1) 0 middleState =
       Done (Some 1) (allocated (IntegerObject 1) middleState)
   \<and> Eval exactHost 3 (PrefixExpression token_Minus (BooleanLiteral True)) 0
         (allocated (IntegerObject 1) middleState) =
       Done (Some 3)
         (allocated (ErrorObject ''Unknown prefix operator'')
            (allocated (BooleanObject True) (allocated (IntegerObject 1) middleState)))
   \<and> Eval exactHost 3 (IntegerLiteral 2) 0
         (allocated (ErrorObject ''Unknown prefix operator'')
            (allocated (BooleanObject True) (allocated (IntegerObject 1) middleState))) =
       Done (Some 4)
         (allocated (IntegerObject 2)
            (allocated (ErrorObject ''Unknown prefix operator'')
               (allocated (BooleanObject True) (allocated (IntegerObject 1) middleState))))
   \<and> (case Eval exactHost 4
              (CallExpression (Identifier (ident ''middle''))
                 [IntegerLiteral 1, PrefixExpression token_Minus (BooleanLiteral True),
                  IntegerLiteral 2]) 0 middleState of
         Done result s \<Rightarrow>
           result = Some 3 \<and> objAt s 3 = Some (ErrorObject ''Unknown prefix operator'')
           \<and> GetObject s 1 ''a'' = Some (Some 1) \<and> GetObject s 1 ''x'' = Some (Some 3)
           \<and> GetObject s 1 ''b'' = Some (Some 4)
       | _ \<Rightarrow> False)"
proof -
  let ?arguments = "[IntegerLiteral 1, PrefixExpression token_Minus (BooleanLiteral True),
                     IntegerLiteral 2] :: rat Node list"
  let ?s2 = "allocated (IntegerObject 1) middleState"
  let ?s3 = "allocated (ErrorObject ''Unknown prefix operator'') (allocated (BooleanObject True) ?s2)"
  let ?s4 = "allocated (IntegerObject 2) ?s3"
  let ?states = "[middleState, ?s2, ?s3, ?s4]"
  let ?objects = "[Some 1, Some 3, Some 4] :: nat option list"
  have callee: "Eval exactHost 3 (Identifier (ident ''middle'')) 0 middleState = Done (Some 0) middleState"
    by (simp add: eval_nat_numeral run_defs middleState_def)
  have fobj: "objAt middleState 0 = Some (FunctionObject [ident ''a'', ident ''x'', ident ''b'']
                (BlockStatement [ReturnStatement None (Identifier (ident ''x''))] None None None)
                0 None None None)"
    by (simp add: objAt_def middleState_def)
  have first: "Eval exactHost 3 (IntegerLiteral 1) 0 middleState = Done (Some 1) ?s2"
    by (simp add: eval_nat_numeral run_defs allocated_def middleState_def)
  have second: "Eval exactHost 3 (PrefixExpression token_Minus (BooleanLiteral True)) 0 ?s2 =
                  Done (Some 3) ?s3"
    by (simp add: eval_nat_numeral run_defs allocated_def middleState_def)
  have third: "Eval exactHost 3 (IntegerLiteral 2) 0 ?s3 = Done (Some 4) ?s4"
    by (simp add: eval_nat_numeral run_defs allocated_def middleState_def)
  have chain: "\<forall>i<length ?arguments.
      Eval exactHost 3 (?arguments ! i) 0 (?states ! i) = Done (?objects ! i) (?states ! Suc i)"
    using first second third by (simp add: All_less_Suc)
  have err: "isError (?states ! Suc 1) (?objects ! 1)"
    by (simp add: isError_def deref_def objAt_def allocated_def middleState_def)
  have "Eval exactHost (Suc 3) (CallExpression (Identifier (ident ''middle'')) ?arguments) 0 middleState =
          andThen (Execute exactHost (Eval exactHost 3) 0 ?objects (last ?states)) unwrapReturn"
    by (rule call_passes_argument_errors [OF callee fobj _ _ _ chain _ err]) simp_all
  then have call: "Eval exactHost 4 (CallExpression (Identifier (ident ''middle'')) ?arguments) 0 middleState =
          andThen (Execute exactHost (Eval exactHost 3) 0 ?objects ?s4) unwrapReturn"
    by simp
  have "(case andThen (Execute exactHost (Eval exactHost 3) 0 ?objects ?s4) unwrapReturn of
         Done result s \<Rightarrow>
           result = Some 3 \<and> objAt s 3 = Some (ErrorObject ''Unknown prefix operator'')
           \<and> GetObject s 1 ''a'' = Some (Some 1) \<and> GetObject s 1 ''x'' = Some (Some 3)
           \<and> GetObject s 1 ''b'' = Some (Some 4)
       | _ \<Rightarrow> False)"
    by (simp add: eval_nat_numeral run_defs allocated_def middleState_def findScope.simps)
  with call callee first second third show ?thesis
    by simp
qed


subsection \<open>The Return sentinel\<close>

lemma block_return:
  assumes "ExtendEnvironment e c s = (e', s0)"
    and "blockStatements ev before e' s0 = Done None s1"
    and "ev statement e' s1 = Done (Some a) s2"
    and "objAt s2 a = Some (ReturnObject r)"
  shows "evalBlockStatement ev (before @ statement # after) c e s = Done (Some a) s2"
  using assms blockStatements_append [OF assms(2), of "statement # after"]
  by (simp add: evalBlockStatement_def)

lemma sentinelOrNil_return:
  "objAt s a = Some (ReturnObject r) \<Longrightarrow> sentinelOrNil (Some a) s = Done (Some a) s"
  by (simp add: sentinelOrNil_def)

lemma if_then_return:
  assumes "ev condition e s = Done cv s1"
    and "\<not> isError s1 cv"
    and "implicitBoolConversion h (deref s1 cv)"
    and "ExtendEnvironment e sc s1 = (e', s2)"
    and "ev statement e' s2 = Done (Some a) s3"
    and "objAt s3 a = Some (ReturnObject r)"
  shows "evalIfStatement h ev condition statement alternative sc ac e s = Done (Some a) s3"
  using assms by (simp add: evalIfStatement_def sentinelOrNil_return)

lemma if_else_return:
  assumes "ev condition e s = Done cv s1"
    and "\<not> isError s1 cv"
    and "\<not> implicitBoolConversion h (deref s1 cv)"
    and "ExtendEnvironment e ac s1 = (e', s2)"
    and "ev alternative e' s2 = Done (Some a) s3"
    and "objAt s3 a = Some (ReturnObject r)"
  shows "evalIfStatement h ev condition statement (Some alternative) sc ac e s = Done (Some a) s3"
  using assms by (simp add: evalIfStatement_def sentinelOrNil_return)

lemma while_return:
  assumes "ev condition e s = Done cv s1"
    and "\<not> isError s1 cv"
    and "implicitBoolConversion h (deref s1 cv)"
    and "ExtendEnvironment e sc s1 = (e', s2)"
    and "ev statement e' s2 = Done (Some a) s3"
    and "objAt s3 a = Some (ReturnObject r)"
  shows "evalWhileStatement h ev tok condition statement sc e s = Done (Some a) s3"
  using assms by (simp add: evalWhileStatement_def)

lemma while_continue:
  assumes "ev condition e s = Done cv s1"
    and "\<not> isError s1 cv"
    and "implicitBoolConversion h (deref s1 cv)"
    and "ExtendEnvironment e sc s1 = (e', s2)"
    and "ev statement e' s2 = Done object s3"
    and "\<not> isError s3 object"
    and "\<not> isReturn s3 object"
  shows "evalWhileStatement h ev tok condition statement sc e s =
           ev (WhileStatement tok condition statement sc) e s3"
proof (cases "deref s3 object")
  case None
  with assms show ?thesis by (simp add: evalWhileStatement_def)
next
  case (Some v)
  with assms show ?thesis
    by (cases v) (simp_all add: evalWhileStatement_def isError_def isReturn_def)
qed

lemma call_unwraps:
  assumes "ev callee e s = Done (Some f) s1"
    and "objAt s1 f = Some (FunctionObject ps body fe c t r')"
    and "evalArguments ev arguments e [] s1 = Done objects s2"
    and "Execute h ev f objects s2 = Done (Some a) s3"
    and "objAt s3 a = Some (ReturnObject r)"
  shows "evalCallExpression h ev callee arguments e s = Done r s3"
  using assms by (simp add: call_function unwrapReturn_def)

text \<open>
  C3. A Return sentinel that a statement yields inside a Block, an If branch or a While
  body is passed up unchanged (the same object, in the same state), and a function call
  replaces it by the object it wraps, once:
  \<^item> a block whose statements before one yield no sentinel and whose next statement
    yields a Return sentinel yields that sentinel, and the statements after it do not run;
  \<^item> an If whose condition is truthy (falsy) and whose then branch (else branch) yields a
    Return sentinel yields that sentinel;
  \<^item> a turn of a While whose condition is truthy and whose body yields a Return sentinel
    yields that sentinel; a turn whose body yields no sentinel goes on with the next turn,
    which is the evaluation of the while statement again;
  \<^item> a call whose callee's \<^verbatim>\<open>Execute\<close> yields a Return sentinel wrapping \<open>r\<close> yields \<open>r\<close>
    as it is.
\<close>

theorem return_sentinel_propagation:
  "(ExtendEnvironment e c s = (e', s0) \<and> blockStatements (Eval h n) before e' s0 = Done None s1
      \<and> Eval h n statement e' s1 = Done (Some a) s2 \<and> objAt s2 a = Some (ReturnObject r)
    \<longrightarrow> Eval h (Suc n) (BlockStatement (before @ statement # after) lb rb c) e s = Done (Some a) s2)
   \<and> (Eval h n condition e s = Done cv s1 \<and> \<not> isError s1 cv
        \<and> implicitBoolConversion h (deref s1 cv) \<and> ExtendEnvironment e sc s1 = (e', s2)
        \<and> Eval h n statement e' s2 = Done (Some a) s3 \<and> objAt s3 a = Some (ReturnObject r)
    \<longrightarrow> Eval h (Suc n) (IfStatement tok condition statement alternative sc ac) e s = Done (Some a) s3)
   \<and> (Eval h n condition e s = Done cv s1 \<and> \<not> isError s1 cv
        \<and> \<not> implicitBoolConversion h (deref s1 cv) \<and> ExtendEnvironment e ac s1 = (e', s2)
        \<and> Eval h n alternative' e' s2 = Done (Some a) s3 \<and> objAt s3 a = Some (ReturnObject r)
    \<longrightarrow> Eval h (Suc n) (IfStatement tok condition statement (Some alternative') sc ac) e s
          = Done (Some a) s3)
   \<and> (Eval h n condition e s = Done cv s1 \<and> \<not> isError s1 cv
        \<and> implicitBoolConversion h (deref s1 cv) \<and> ExtendEnvironment e sc s1 = (e', s2)
        \<and> Eval h n statement e' s2 = Done (Some a) s3 \<and> objAt s3 a = Some (ReturnObject r)
    \<longrightarrow> Eval h (Suc n) (WhileStatement tok condition statement sc) e s = Done (Some a) s3)
   \<and> (Eval h n condition e s = Done cv s1 \<and> \<not> isError s1 cv
        \<and> implicitBoolConversion h (deref s1 cv) \<and> ExtendEnvironment e sc s1 = (e', s2)
        \<and> Eval h n statement e' s2 = Done object s3
        \<and> \<not> isError s3 object \<and> \<not> isReturn s3 object
    \<longrightarrow> Eval h (Suc n) (WhileStatement tok condition statement sc) e s
          = Eval h n (WhileStatement tok condition statement sc) e s3)
   \<and> (Eval h n callee e s = Done (Some f) s1
        \<and> objAt s1 f = Some (FunctionObject ps body fe fc ft fr)
        \<and> evalArguments (Eval h n) arguments e [] s1 = Done objects s2
        \<and> Execute h (Eval h n) f objects s2 = Done (Some a) s3
        \<and> objAt s3 a = Some (ReturnObject r)
    \<longrightarrow> Eval h (Suc n) (CallExpression callee arguments) e s = Done r s3)"
  by (simp add: block_return if_then_return if_else_return while_return while_continue
      call_unwraps)

text \<open>
  Instances: the call \<^verbatim>\<open>g()\<close> in the state after
  \<^verbatim>\<open>func g() { while true { if true { return 7; } } }\<close>, where the sentinel made by
  \<^verbatim>\<open>return 7\<close> (address \<open>4\<close>) goes up through the block, the If, the block, the While
  and the body's block, and the call yields the Integer \<open>7\<close> it wraps (address \<open>3\<close>); an
  If that takes its else branch; and the loop \<^verbatim>\<open>while true { }\<close>, which goes on until
  the fuel is used up.
\<close>

theorem return_sentinel_propagation_witness:
  "(case Eval exactHost 8 (CallExpression (Identifier (ident ''g'')) []) 0 loopState of
      Done result s \<Rightarrow>
        result = Some 3 \<and> objAt s 3 = Some (IntegerObject 7)
        \<and> objAt s 4 = Some (ReturnObject (Some 3))
    | _ \<Rightarrow> False)
   \<and> (case Eval exactHost 4
              (IfStatement None (BooleanLiteral False) NullLiteral (Some returnSeven) None None)
              0 NewEnvironment of
         Done result s \<Rightarrow> result = Some 2 \<and> objAt s 2 = Some (ReturnObject (Some 1))
       | _ \<Rightarrow> False)
   \<and> Eval exactHost 3
        (WhileStatement None (BooleanLiteral True) (BlockStatement [] None None None) None)
        0 NewEnvironment = OutOfFuel"
proof -
  note P = return_sentinel_propagation
  note heap = extended_def ExtendEnvironment_def allocated_def loopState_def objAt_def
    isError_def isReturn_def implicitBoolConversion_def new_def NewEnvironment_def
  let ?sA = "extended 0 loopState"
  let ?sB = "extended 1 ?sA"
  let ?sC = "allocated (BooleanObject True) ?sB"
  let ?sD = "extended 2 ?sC"
  let ?sE = "extended 3 ?sD"
  let ?sF = "allocated (BooleanObject True) ?sE"
  let ?sG = "extended 4 ?sF"
  let ?sH = "extended 5 ?sG"
  let ?sJ = "allocated (ReturnObject (Some 3)) (allocated (IntegerObject 7) ?sH)"
  let ?if = "IfStatement None (BooleanLiteral True) returnSeven None None None"
  let ?while = "WhileStatement None (BooleanLiteral True) loopIf None"
  have obj: "objAt ?sJ 4 = Some (ReturnObject (Some 3))"
    by (simp add: heap)
  have ret: "Eval exactHost 2 (ReturnStatement None (IntegerLiteral 7)) 6 ?sH = Done (Some 4) ?sJ"
    by (simp add: eval_nat_numeral run_defs state_defs)
  have inner: "Eval exactHost (Suc 2) returnSeven 5 ?sG = Done (Some 4) ?sJ"
    unfolding returnSeven_def
    using P [where h = exactHost and n = 2 and before = "[]" and after = "[]"
        and e = 5 and c = None and s = ?sG and e' = 6 and ?s0.0 = ?sH and ?s1.0 = ?sH
        and statement = "ReturnStatement None (IntegerLiteral 7)" and a = 4 and ?s2.0 = ?sJ
        and r = "Some 3" and lb = None and rb = None, THEN conjunct1] ret obj
    by (simp add: heap)
  have cond1: "Eval exactHost 3 (BooleanLiteral True) 4 ?sE = Done (Some 2) ?sF"
    by (simp add: eval_nat_numeral heap)
  have branch: "Eval exactHost (Suc 3) ?if 4 ?sE = Done (Some 4) ?sJ"
    using P [where h = exactHost and n = 3 and e = 4 and s = ?sE and condition = "BooleanLiteral True"
        and cv = "Some 2" and ?s1.0 = ?sF and sc = None and e' = 5 and ?s2.0 = ?sG
        and statement = returnSeven and a = 4 and ?s3.0 = ?sJ and r = "Some 3" and tok = None
        and alternative = None and ac = None, THEN conjunct2, THEN conjunct1] cond1 inner obj
    by (simp add: heap)
  have block2: "Eval exactHost (Suc 4) loopIf 3 ?sD = Done (Some 4) ?sJ"
    unfolding loopIf_def
    using P [where h = exactHost and n = 4 and before = "[]" and after = "[]"
        and e = 3 and c = None and s = ?sD and e' = 4 and ?s0.0 = ?sE and ?s1.0 = ?sE
        and statement = ?if and a = 4 and ?s2.0 = ?sJ
        and r = "Some 3" and lb = None and rb = None, THEN conjunct1] branch obj
    by (simp add: heap)
  have cond2: "Eval exactHost 5 (BooleanLiteral True) 2 ?sB = Done (Some 1) ?sC"
    by (simp add: eval_nat_numeral heap)
  have loop: "Eval exactHost (Suc 5) ?while 2 ?sB = Done (Some 4) ?sJ"
    using P [where h = exactHost and n = 5 and e = 2 and s = ?sB and condition = "BooleanLiteral True"
        and cv = "Some 1" and ?s1.0 = ?sC and sc = None and e' = 3 and ?s2.0 = ?sD
        and statement = loopIf and a = 4 and ?s3.0 = ?sJ and r = "Some 3" and tok = None,
        THEN conjunct2, THEN conjunct2, THEN conjunct2, THEN conjunct1] cond2 block2 obj
    by (simp add: heap)
  have block3: "Eval exactHost (Suc 6) loopWhile 1 ?sA = Done (Some 4) ?sJ"
    unfolding loopWhile_def
    using P [where h = exactHost and n = 6 and before = "[]" and after = "[]"
        and e = 1 and c = None and s = ?sA and e' = 2 and ?s0.0 = ?sB and ?s1.0 = ?sB
        and statement = ?while and a = 4 and ?s2.0 = ?sJ
        and r = "Some 3" and lb = None and rb = None, THEN conjunct1] loop obj
    by (simp add: heap)
  have callee: "Eval exactHost 7 (Identifier (ident ''g'')) 0 loopState = Done (Some 0) loopState"
    by (simp add: eval_nat_numeral run_defs loopState_def)
  have body: "Execute exactHost (Eval exactHost 7) 0 [] loopState = Done (Some 4) ?sJ"
    using block3 by (simp add: exactHost_def ExecuteFunction_def heap)
  have call: "Eval exactHost (Suc 7) (CallExpression (Identifier (ident ''g'')) []) 0 loopState =
      Done (Some 3) ?sJ"
    using P [where h = exactHost and n = 7 and e = 0 and s = loopState
        and callee = "Identifier (ident ''g'')" and f = 0 and ?s1.0 = loopState
        and ps = "[]" and body = loopWhile and fe = 0 and fc = None and ft = None and fr = None
        and arguments = "[]" and objects = "[]" and ?s2.0 = loopState and a = 4 and ?s3.0 = ?sJ
        and r = "Some 3",
        THEN conjunct2, THEN conjunct2, THEN conjunct2, THEN conjunct2, THEN conjunct2]
      callee body obj
    by (simp add: heap)
  have first: "(case Eval exactHost 8 (CallExpression (Identifier (ident ''g'')) []) 0 loopState of
      Done result s \<Rightarrow>
        result = Some 3 \<and> objAt s 3 = Some (IntegerObject 7)
        \<and> objAt s 4 = Some (ReturnObject (Some 3))
    | _ \<Rightarrow> False)"
    using call obj by (simp add: heap)
  let ?t1 = "allocated (BooleanObject False) (NewEnvironment :: rat state)"
  let ?t2 = "extended 0 ?t1"
  let ?t3 = "allocated (ReturnObject (Some 1)) (allocated (IntegerObject 7) (extended 1 ?t2))"
  have cond3: "Eval exactHost 3 (BooleanLiteral False) 0 NewEnvironment = Done (Some 0) ?t1"
    by (simp add: eval_nat_numeral heap)
  have alt: "Eval exactHost 3 returnSeven 1 ?t2 = Done (Some 2) ?t3"
    by (simp add: eval_nat_numeral run_defs state_defs)
  have obj3: "objAt ?t3 2 = Some (ReturnObject (Some 1))"
    by (simp add: heap)
  have "Eval exactHost (Suc 3)
          (IfStatement None (BooleanLiteral False) NullLiteral (Some returnSeven) None None)
          0 NewEnvironment = Done (Some 2) ?t3"
    using P [where h = exactHost and n = 3 and e = 0 and s = NewEnvironment
        and condition = "BooleanLiteral False" and cv = "Some 0" and ?s1.0 = ?t1 and ac = None
        and e' = 1 and ?s2.0 = ?t2 and alternative' = returnSeven and a = 2 and ?s3.0 = ?t3
        and r = "Some 1" and tok = None and statement = NullLiteral and sc = None,
        THEN conjunct2, THEN conjunct2, THEN conjunct1] cond3 alt obj3
    by (simp add: heap)
  then have second: "(case Eval exactHost 4
              (IfStatement None (BooleanLiteral False) NullLiteral (Some returnSeven) None None)
              0 NewEnvironment of
         Done result s \<Rightarrow> result = Some 2 \<and> objAt s 2 = Some (ReturnObject (Some 1))
       | _ \<Rightarrow> False)"
    using obj3 by simp
  let ?u1 = "allocated (BooleanObject True) (NewEnvironment :: rat state)"
  let ?u3 = "extended 1 (extended 0 ?u1)"
  let ?spin = "WhileStatement None (BooleanLiteral True) (BlockStatement [] None None None) None"
  have cond4: "Eval exactHost 2 (BooleanLiteral True) 0 NewEnvironment = Done (Some 0) ?u1"
    by (simp add: eval_nat_numeral heap)
  have empty: "Eval exactHost 2 (BlockStatement [] None None None) 1 (extended 0 ?u1) = Done None ?u3"
    by (simp add: eval_nat_numeral run_defs state_defs)
  have "Eval exactHost (Suc 2) ?spin 0 NewEnvironment = Eval exactHost 2 ?spin 0 ?u3"
    using P [where h = exactHost and n = 2 and e = 0 and s = NewEnvironment
        and condition = "BooleanLiteral True" and cv = "Some 0" and ?s1.0 = ?u1 and sc = None
        and e' = 1 and ?s2.0 = "extended 0 ?u1" and statement = "BlockStatement [] None None None"
        and object = None and ?s3.0 = ?u3 and tok = None,
        THEN conjunct2, THEN conjunct2, THEN conjunct2, THEN conjunct2, THEN conjunct1]
      cond4 empty
    by (simp add: heap)
  moreover have "Eval exactHost 2 ?spin 0 ?u3 = OutOfFuel"
    by (simp add: eval_nat_numeral run_defs state_defs)
  ultimately have third: "Eval exactHost 3 ?spin 0 NewEnvironment = OutOfFuel"
    by simp
  from first second third show ?thesis by simp
qed

subsection \<open>The logical operators\<close>

text \<open>
  C4. An infix expression with \<^verbatim>\<open>&&\<close> whose left operand evaluates to a falsy value, or
  with \<^verbatim>\<open>||\<close> whose left operand evaluates to a truthy value, has its result without the
  right operand being evaluated: the outcome is a new Boolean (false for \<^verbatim>\<open>&&\<close>, true for
  \<^verbatim>\<open>||\<close>) in the state that the left operand left, whatever the right operand is; when
  the truthy left value of an \<^verbatim>\<open>||\<close> is an Error object, the outcome is that Error, in
  the same state.
\<close>

theorem logical_short_circuit:
  assumes "Eval h n left e s = Done leftObject s1"
    and "operator = token_LogicalAnd \<and> \<not> implicitBoolConversion h (deref s1 leftObject)
         \<or> operator = token_LogicalOr \<and> implicitBoolConversion h (deref s1 leftObject)"
  shows "Eval h (Suc n) (InfixExpression left operator right) e s =
           (if isError s1 leftObject then Done leftObject s1
            else Done (Some (length (objs s1)))
                   (s1\<lparr>objs := objs s1 @ [BooleanObject (operator = token_LogicalOr)]\<rparr>))"
  using assms by (auto simp: evalInfixExpression_def new_def)

text \<open>
  An instance: \<^verbatim>\<open>false && 1 / 0\<close>. Evaluated on its own the right operand panics; the
  conjunction is a new Boolean false.
\<close>

theorem logical_short_circuit_witness:
  "Eval exactHost 2 (BooleanLiteral False) 0 NewEnvironment =
     Done (Some 0) (allocated (BooleanObject False) NewEnvironment)
   \<and> \<not> implicitBoolConversion exactHost
         (deref (allocated (BooleanObject False) NewEnvironment) (Some 0))
   \<and> Eval exactHost 2 (InfixExpression (IntegerLiteral 1) token_Slash (IntegerLiteral 0)) 0
        (allocated (BooleanObject False) NewEnvironment) =
       Panic ''runtime error: integer divide by zero''
   \<and> Eval exactHost 3
        (InfixExpression (BooleanLiteral False) token_LogicalAnd
           (InfixExpression (IntegerLiteral 1) token_Slash (IntegerLiteral 0))) 0 NewEnvironment =
       Done (Some 1) (allocated (BooleanObject False) (allocated (BooleanObject False) NewEnvironment))"
proof -
  let ?s1 = "allocated (BooleanObject False) (NewEnvironment :: rat state)"
  have left: "Eval exactHost 2 (BooleanLiteral False) 0 NewEnvironment = Done (Some 0) ?s1"
    by (simp add: eval_nat_numeral run_defs state_defs)
  have falsy: "\<not> implicitBoolConversion exactHost (deref ?s1 (Some 0))"
    by (simp add: run_defs state_defs)
  have right: "Eval exactHost 2 (InfixExpression (IntegerLiteral 1) token_Slash (IntegerLiteral 0)) 0 ?s1 =
       Panic ''runtime error: integer divide by zero''"
    by (simp add: eval_nat_numeral run_defs state_defs)
  have "Eval exactHost (Suc 2)
        (InfixExpression (BooleanLiteral False) token_LogicalAnd
           (InfixExpression (IntegerLiteral 1) token_Slash (IntegerLiteral 0))) 0 NewEnvironment =
       Done (Some 1) (allocated (BooleanObject False) ?s1)"
    using logical_short_circuit [OF left, of token_LogicalAnd] falsy
    by (simp add: isError_def objAt_def NewEnvironment_def allocated_def)
  then show ?thesis using left falsy right by simp
qed

text \<open>
  C10. An infix expression with \<^verbatim>\<open>&&\<close> or \<^verbatim>\<open>||\<close> that is not decided by the
  truthiness of its left operand: when neither operand evaluates to an Error object, the
  result is a new Boolean object holding the truthiness of the value of the right
  operand, whatever the types of the two values, and its address is one that no object
  had when the right operand had been evaluated, so it is neither of the operands'
  objects. When the left operand evaluates to an Error object, the result is that object
  and the right operand is not evaluated; when the right operand evaluates to an Error
  object, the result is that object, and no Boolean is built.
\<close>

theorem logical_result_is_new_boolean:
  assumes "Eval h n left e s = Done leftObject s1"
    and "operator = token_LogicalAnd \<and> implicitBoolConversion h (deref s1 leftObject)
         \<or> operator = token_LogicalOr \<and> \<not> implicitBoolConversion h (deref s1 leftObject)"
    and "\<not> isError s1 leftObject \<longrightarrow> Eval h n right e s1 = Done rightObject s2"
  shows "Eval h (Suc n) (InfixExpression left operator right) e s =
           (if isError s1 leftObject then Done leftObject s1
            else if isError s2 rightObject then Done rightObject s2
            else Done (Some (length (objs s2)))
                   (s2\<lparr>objs := objs s2 @
                      [BooleanObject (implicitBoolConversion h (deref s2 rightObject))]\<rparr>))
         \<and> objAt s2 (length (objs s2)) = None"
  using assms by (auto simp: evalInfixExpression_def new_def objAt_def)

text \<open>
  An instance: \<^verbatim>\<open>1 && ""\<close> yields a new Boolean false, not the empty string.
\<close>

theorem logical_result_is_new_boolean_witness:
  "Eval exactHost 2 (IntegerLiteral 1) 0 NewEnvironment =
     Done (Some 0) (allocated (IntegerObject 1) NewEnvironment)
   \<and> implicitBoolConversion exactHost (deref (allocated (IntegerObject 1) NewEnvironment) (Some 0))
   \<and> Eval exactHost 2 (StringLiteral []) 0 (allocated (IntegerObject 1) NewEnvironment) =
       Done (Some 1) (allocated (StringObject []) (allocated (IntegerObject 1) NewEnvironment))
   \<and> Eval exactHost 3 (InfixExpression (IntegerLiteral 1) token_LogicalAnd (StringLiteral []))
        0 NewEnvironment =
       Done (Some 2)
         (allocated (BooleanObject False)
            (allocated (StringObject []) (allocated (IntegerObject 1) NewEnvironment)))"
proof -
  let ?s1 = "allocated (IntegerObject 1) (NewEnvironment :: rat state)"
  let ?s2 = "allocated (StringObject []) ?s1"
  have left: "Eval exactHost 2 (IntegerLiteral 1) 0 NewEnvironment = Done (Some 0) ?s1"
    by (simp add: eval_nat_numeral run_defs state_defs)
  have truthy: "implicitBoolConversion exactHost (deref ?s1 (Some 0))"
    by (simp add: run_defs state_defs)
  have right: "Eval exactHost 2 (StringLiteral []) 0 ?s1 = Done (Some 1) ?s2"
    by (simp add: eval_nat_numeral run_defs state_defs)
  have "Eval exactHost (Suc 2) (InfixExpression (IntegerLiteral 1) token_LogicalAnd (StringLiteral []))
          0 NewEnvironment = Done (Some 2) (allocated (BooleanObject False) ?s2)"
    using logical_result_is_new_boolean [where operator = token_LogicalAnd
        and rightObject = "Some 1" and ?s2.0 = ?s2 and right = "StringLiteral []", OF left]
      truthy right
    by (simp add: isError_def implicitBoolConversion_def objAt_def NewEnvironment_def allocated_def)
  then show ?thesis using left truthy right by simp
qed

text \<open>
  The claim as first stated (the result is always a new Boolean and never an operand)
  fails when an operand is an Error object: in \<^verbatim>\<open>1 && y\<close> with \<open>y\<close> unbound the left
  operand is truthy, the right operand evaluates to the Error object at address \<open>1\<close>, and
  the expression evaluates to that same object, in the same state, which holds no Boolean.
\<close>

theorem logical_error_operand_counterexample:
  "Eval exactHost 2 (IntegerLiteral 1) 0 NewEnvironment =
     Done (Some 0) (allocated (IntegerObject 1) NewEnvironment)
   \<and> implicitBoolConversion exactHost (deref (allocated (IntegerObject 1) NewEnvironment) (Some 0))
   \<and> Eval exactHost 2 (Identifier (ident ''y'')) 0 (allocated (IntegerObject 1) NewEnvironment) =
       Done (Some 1)
         (allocated (ErrorObject ''Cannot resolve identifier'')
            (allocated (IntegerObject 1) NewEnvironment))
   \<and> Eval exactHost 3 (InfixExpression (IntegerLiteral 1) token_LogicalAnd (Identifier (ident ''y'')))
        0 NewEnvironment =
       Done (Some 1)
         (allocated (ErrorObject ''Cannot resolve identifier'')
            (allocated (IntegerObject 1) NewEnvironment))
   \<and> objs (allocated (ErrorObject ''Cannot resolve identifier'')
            (allocated (IntegerObject 1) (NewEnvironment :: rat state))) =
       [IntegerObject 1, ErrorObject ''Cannot resolve identifier'']"
  by (simp add: eval_nat_numeral run_defs state_defs)


subsection \<open>Programs\<close>

text \<open>
  C9. Evaluating a Program returns \<^verbatim>\<open>nil\<close> or an Error object and nothing else; a
  statement that yields a Return sentinel does not end the program, which goes on with
  the statements after it; and the value of the last statement is dropped: when it is
  not an Error the program returns \<^verbatim>\<open>nil\<close>.
\<close>

theorem program_result:
  "(Eval h (Suc n) (Program statements c) e s = Done result s' \<longrightarrow>
      result = None \<or> isError s' result)
   \<and> (ExtendEnvironment e c s = (e', s0)
        \<and> programStatements (Eval h n) before e' s0 = Done None s1
        \<and> Eval h n statement e' s1 = Done (Some a) s2 \<and> objAt s2 a = Some (ReturnObject r)
      \<longrightarrow> Eval h (Suc n) (Program (before @ statement # after) c) e s =
            programStatements (Eval h n) after e' s2)
   \<and> (ExtendEnvironment e c s = (e', s0)
        \<and> programStatements (Eval h n) before e' s0 = Done None s1
        \<and> Eval h n statement e' s1 = Done object s2 \<and> \<not> isError s2 object
      \<longrightarrow> Eval h (Suc n) (Program (before @ [statement]) c) e s = Done None s2)"
proof (intro conjI impI)
  assume "Eval h (Suc n) (Program statements c) e s = Done result s'"
  then show "result = None \<or> isError s' result"
    by (auto simp: evalProgram_def split: prod.splits dest: programStatements_result)
next
  assume a: "ExtendEnvironment e c s = (e', s0)
        \<and> programStatements (Eval h n) before e' s0 = Done None s1
        \<and> Eval h n statement e' s1 = Done (Some a) s2 \<and> objAt s2 a = Some (ReturnObject r)"
  then have "programStatements (Eval h n) (before @ statement # after) e' s0 =
          programStatements (Eval h n) (statement # after) e' s1"
    by (simp add: programStatements_append)
  with a show "Eval h (Suc n) (Program (before @ statement # after) c) e s =
            programStatements (Eval h n) after e' s2"
    by (simp add: evalProgram_def programStatements_Cons Return_not_Error
        del: programStatements.simps)
next
  assume a: "ExtendEnvironment e c s = (e', s0)
        \<and> programStatements (Eval h n) before e' s0 = Done None s1
        \<and> Eval h n statement e' s1 = Done object s2 \<and> \<not> isError s2 object"
  then have "programStatements (Eval h n) (before @ [statement]) e' s0 =
          programStatements (Eval h n) [statement] e' s1"
    by (simp add: programStatements_append)
  with a show "Eval h (Suc n) (Program (before @ [statement]) c) e s = Done None s2"
    by (simp add: evalProgram_def programStatements_Cons del: programStatements.simps(2))
qed

text \<open>
  Instances: the program \<^verbatim>\<open>5 + 5;\<close> returns \<^verbatim>\<open>nil\<close> (the Integer \<open>10\<close> stays in the
  heap), and so does \<^verbatim>\<open>return 1; 5 + 5;\<close>, which evaluates \<^verbatim>\<open>5 + 5\<close> after the
  return statement.
\<close>

theorem program_result_witness:
  "Eval exactHost 4 (Program [fivePlusFive] None) 0 NewEnvironment =
     Done None (allocated (IntegerObject 10) (allocated (IntegerObject 5)
       (allocated (IntegerObject 5) (extended 0 NewEnvironment))))
   \<and> Eval exactHost 4 (Program [ReturnStatement None (IntegerLiteral 1), fivePlusFive] None)
        0 NewEnvironment =
       Done None (allocated (IntegerObject 10) (allocated (IntegerObject 5)
         (allocated (IntegerObject 5) (allocated (ReturnObject (Some 0))
           (allocated (IntegerObject 1) (extended 0 NewEnvironment))))))"
proof -
  note P = program_result
  let ?s0 = "extended 0 (NewEnvironment :: rat state)"
  let ?s2 = "allocated (IntegerObject 10) (allocated (IntegerObject 5) (allocated (IntegerObject 5) ?s0))"
  let ?t2 = "allocated (ReturnObject (Some 0)) (allocated (IntegerObject 1) ?s0)"
  let ?t3 = "allocated (IntegerObject 10) (allocated (IntegerObject 5) (allocated (IntegerObject 5) ?t2))"
  have ext: "ExtendEnvironment 0 None (NewEnvironment :: rat state) = (1, ?s0)"
    by (simp add: run_defs state_defs)
  have last: "Eval exactHost 3 fivePlusFive 1 ?s0 = Done (Some 2) ?s2"
    by (simp add: eval_nat_numeral run_defs state_defs fivePlusFive_def)
  have plain: "\<not> isError ?s2 (Some 2)"
    by (simp add: run_defs state_defs)
  have first: "Eval exactHost (Suc 3) (Program ([] @ [fivePlusFive]) None) 0 NewEnvironment = Done None ?s2"
    using P [where h = exactHost and n = 3 and e = 0 and c = None and s = NewEnvironment
        and e' = 1 and ?s0.0 = ?s0 and before = "[]" and ?s1.0 = ?s0 and statement = fivePlusFive
        and object = "Some 2" and ?s2.0 = ?s2, THEN conjunct2, THEN conjunct2] ext last plain
    by simp
  have ret: "Eval exactHost 3 (ReturnStatement None (IntegerLiteral 1)) 1 ?s0 = Done (Some 1) ?t2"
    by (simp add: eval_nat_numeral run_defs state_defs)
  have sentinel: "objAt ?t2 1 = Some (ReturnObject (Some 0))"
    by (simp add: run_defs state_defs)
  have rest: "programStatements (Eval exactHost 3) [fivePlusFive] 1 ?t2 = Done None ?t3"
    by (simp add: eval_nat_numeral run_defs state_defs fivePlusFive_def)
  have "Eval exactHost (Suc 3) (Program ([] @ ReturnStatement None (IntegerLiteral 1) # [fivePlusFive]) None)
          0 NewEnvironment = programStatements (Eval exactHost 3) [fivePlusFive] 1 ?t2"
    using P [where h = exactHost and n = 3 and e = 0 and c = None and s = NewEnvironment
        and e' = 1 and ?s0.0 = ?s0 and before = "[]" and ?s1.0 = ?s0
        and statement = "ReturnStatement None (IntegerLiteral 1)" and a = 1 and ?s2.0 = ?t2
        and r = "Some 0" and after = "[fivePlusFive]", THEN conjunct2, THEN conjunct1]
      ext ret sentinel
    by simp
  with rest first show ?thesis by simp
qed

subsection \<open>Numeric operators\<close>

lemma infix_operands:
  assumes "ev left e s = Done (Some l) s1"
    and "\<not> isError s1 (Some l)"
    and "ev right e s1 = Done (Some r) s2"
    and "\<not> isError s2 (Some r)"
    and "operator \<noteq> token_LogicalAnd" "operator \<noteq> token_LogicalOr"
  shows "evalInfixExpression h ev left operator right e s = infixOperator h operator (Some l) (Some r) s2"
  using assms by (simp add: evalInfixExpression_def)

lemma numericOperators_not_logical:
  "operator \<in> set numericOperators \<Longrightarrow> operator \<noteq> token_LogicalAnd \<and> operator \<noteq> token_LogicalOr"
  by (auto simp: numericOperators_def arithmeticOperators_def)

lemma arithmetic_numeric: "operator \<in> set arithmeticOperators \<Longrightarrow> operator \<in> set numericOperators"
  by (simp add: numericOperators_def)

lemma float_float:
  assumes "objAt s l = Some (FloatObject x)" "objAt s r = Some (FloatObject y)"
    and "operator \<in> set numericOperators"
  shows "infixOperator h operator (Some l) (Some r) s = new (floatOperation h operator x y) s"
  using assms
  by (auto simp: numericOperators_def arithmeticOperators_def infixOperator_def
      evalNumericInfix_def floatOperation_def isString_def)

lemma integer_float:
  assumes "objAt s l = Some (IntegerObject a)" "objAt s r = Some (FloatObject y)"
    and "operator \<in> set numericOperators"
  shows "infixOperator h operator (Some l) (Some r) s =
           new (floatOperation h operator (ofInt64 h a) y) s"
  using assms
  by (auto simp: numericOperators_def arithmeticOperators_def infixOperator_def
      evalNumericInfix_def floatOperation_def isString_def)

lemma float_integer:
  assumes "objAt s l = Some (FloatObject x)" "objAt s r = Some (IntegerObject b)"
    and "operator \<in> set numericOperators"
  shows "infixOperator h operator (Some l) (Some r) s =
           new (floatOperation h operator x (ofInt64 h b)) s"
  using assms
  by (auto simp: numericOperators_def arithmeticOperators_def infixOperator_def
      evalNumericInfix_def floatOperation_def isString_def)

lemma integer_integer:
  assumes "objAt s l = Some (IntegerObject a)" "objAt s r = Some (IntegerObject b)"
    and "operator \<in> set arithmeticOperators"
    and "operator = token_Slash \<longrightarrow> b \<noteq> 0"
  shows "infixOperator h operator (Some l) (Some r) s = new (integerOperation operator a b) s"
  using assms
  by (auto simp: arithmeticOperators_def infixOperator_def evalNumericInfix_def
      integerOperation_def isString_def intDivide_def)

lemma integer_division_by_zero:
  assumes "objAt s l = Some (IntegerObject a)" "objAt s r = Some (IntegerObject 0)"
  shows "infixOperator h token_Slash (Some l) (Some r) s =
           Panic ''runtime error: integer divide by zero''"
  using assms by (simp add: infixOperator_def evalNumericInfix_def intDivide_def)

lemma equality_of_integer_and_float:
  assumes "objAt s i = Some (IntegerObject a)" "objAt s f = Some (FloatObject y)"
  shows "infixOperator h token_EQ (Some i) (Some f) s = new (BooleanObject False) s"
    and "infixOperator h token_NEQ (Some i) (Some f) s = new (BooleanObject True) s"
    and "infixOperator h token_EQ (Some f) (Some i) s = new (BooleanObject False) s"
    and "infixOperator h token_NEQ (Some f) (Some i) s = new (BooleanObject True) s"
  using assms by (simp_all add: infixOperator_def evalEquals_def)

lemma floatOperation_arithmetic:
  "operator \<in> set arithmeticOperators \<Longrightarrow> \<exists>v. floatOperation h operator x y = FloatObject v"
  by (auto simp: arithmeticOperators_def floatOperation_def)

lemma not_error_numeric:
  "objAt s a = Some (IntegerObject v) \<Longrightarrow> \<not> isError s (Some a)"
  "objAt s a = Some (FloatObject x) \<Longrightarrow> \<not> isError s (Some a)"
  by (simp_all add: isError_def)

text \<open>
  C6, as amended. Let the two operands of an infix expression evaluate, the left one
  first, to objects that are read once both are evaluated. For the arithmetic operators
  \<^verbatim>\<open>+ - * /\<close> and the ordering operators \<^verbatim>\<open>< > <= >=\<close>: when one operand is an Integer
  and the other a Float, the result is a new object holding the Float operation on the
  Float and on the Integer converted to Float, which is what the same operator gives on
  two Floats; for the arithmetic operators that object is a Float. Two Integers under
  an arithmetic operator (under \<^verbatim>\<open>/\<close>, with a divisor other than zero) give a new Integer.
  The equality operators do not convert: \<^verbatim>\<open>==\<close> on an Integer and a Float is false and
  \<^verbatim>\<open>!=\<close> is true, whatever the two numbers.
\<close>

theorem numeric_promotion:
  assumes "Eval h n left e s = Done (Some l) s1"
    and "\<not> isError s1 (Some l)"
    and "Eval h n right e s1 = Done (Some r) s2"
  shows
    "(operator \<in> set numericOperators
        \<and> objAt s2 l = Some (IntegerObject a) \<and> objAt s2 r = Some (FloatObject y)
      \<longrightarrow> Eval h (Suc n) (InfixExpression left operator right) e s =
            new (floatOperation h operator (ofInt64 h a) y) s2)
     \<and> (operator \<in> set numericOperators
        \<and> objAt s2 l = Some (FloatObject x) \<and> objAt s2 r = Some (IntegerObject b)
      \<longrightarrow> Eval h (Suc n) (InfixExpression left operator right) e s =
            new (floatOperation h operator x (ofInt64 h b)) s2)
     \<and> (operator \<in> set numericOperators
        \<and> objAt s2 l = Some (FloatObject x) \<and> objAt s2 r = Some (FloatObject y)
      \<longrightarrow> Eval h (Suc n) (InfixExpression left operator right) e s =
            new (floatOperation h operator x y) s2)
     \<and> (operator \<in> set arithmeticOperators
      \<longrightarrow> (\<exists>v. floatOperation h operator x y = FloatObject v))
     \<and> (operator \<in> set arithmeticOperators \<and> (operator = token_Slash \<longrightarrow> b \<noteq> 0)
        \<and> objAt s2 l = Some (IntegerObject a) \<and> objAt s2 r = Some (IntegerObject b)
      \<longrightarrow> Eval h (Suc n) (InfixExpression left operator right) e s =
            new (integerOperation operator a b) s2)
     \<and> (objAt s2 l = Some (IntegerObject a) \<and> objAt s2 r = Some (FloatObject y)
        \<or> objAt s2 l = Some (FloatObject x) \<and> objAt s2 r = Some (IntegerObject b)
      \<longrightarrow> Eval h (Suc n) (InfixExpression left token_EQ right) e s =
            new (BooleanObject False) s2
          \<and> Eval h (Suc n) (InfixExpression left token_NEQ right) e s =
            new (BooleanObject True) s2)"
proof (intro conjI impI)
  assume a: "operator \<in> set numericOperators
        \<and> objAt s2 l = Some (IntegerObject a) \<and> objAt s2 r = Some (FloatObject y)"
  with assms show "Eval h (Suc n) (InfixExpression left operator right) e s =
            new (floatOperation h operator (ofInt64 h a) y) s2"
    by (simp add: infix_operands not_error_numeric numericOperators_not_logical integer_float)
next
  assume a: "operator \<in> set numericOperators
        \<and> objAt s2 l = Some (FloatObject x) \<and> objAt s2 r = Some (IntegerObject b)"
  with assms show "Eval h (Suc n) (InfixExpression left operator right) e s =
            new (floatOperation h operator x (ofInt64 h b)) s2"
    by (simp add: infix_operands not_error_numeric numericOperators_not_logical float_integer)
next
  assume a: "operator \<in> set numericOperators
        \<and> objAt s2 l = Some (FloatObject x) \<and> objAt s2 r = Some (FloatObject y)"
  with assms show "Eval h (Suc n) (InfixExpression left operator right) e s =
            new (floatOperation h operator x y) s2"
    by (simp add: infix_operands not_error_numeric numericOperators_not_logical float_float)
next
  assume "operator \<in> set arithmeticOperators"
  then show "\<exists>v. floatOperation h operator x y = FloatObject v"
    by (rule floatOperation_arithmetic)
next
  assume a: "operator \<in> set arithmeticOperators \<and> (operator = token_Slash \<longrightarrow> b \<noteq> 0)
        \<and> objAt s2 l = Some (IntegerObject a) \<and> objAt s2 r = Some (IntegerObject b)"
  then have "operator \<noteq> token_LogicalAnd \<and> operator \<noteq> token_LogicalOr"
    by (simp add: numericOperators_not_logical arithmetic_numeric)
  with a assms show "Eval h (Suc n) (InfixExpression left operator right) e s =
            new (integerOperation operator a b) s2"
    by (simp add: infix_operands not_error_numeric integer_integer)
next
  assume a: "objAt s2 l = Some (IntegerObject a) \<and> objAt s2 r = Some (FloatObject y)
        \<or> objAt s2 l = Some (FloatObject x) \<and> objAt s2 r = Some (IntegerObject b)"
  with assms show "Eval h (Suc n) (InfixExpression left token_EQ right) e s =
            new (BooleanObject False) s2"
    by (auto simp: infix_operands not_error_numeric equality_of_integer_and_float)
next
  assume a: "objAt s2 l = Some (IntegerObject a) \<and> objAt s2 r = Some (FloatObject y)
        \<or> objAt s2 l = Some (FloatObject x) \<and> objAt s2 r = Some (IntegerObject b)"
  with assms show "Eval h (Suc n) (InfixExpression left token_NEQ right) e s =
            new (BooleanObject True) s2"
    by (auto simp: infix_operands not_error_numeric equality_of_integer_and_float)
qed

text \<open>
  The claim as first stated (every comparison operator converts the Integer operand) fails
  for \<^verbatim>\<open>==\<close>: \<^verbatim>\<open>1 == 1.0\<close> evaluates to a Boolean false, while the comparison of the
  converted operand, \<^verbatim>\<open>float64(1) == 1.0\<close>, evaluates to a Boolean true.
\<close>

theorem integer_float_equality_counterexample:
  "Eval exactHost 2 (InfixExpression (IntegerLiteral 1) token_EQ (FloatLiteral 1)) 0 NewEnvironment =
     Done (Some 2)
       (allocated (BooleanObject False)
          (allocated (FloatObject 1) (allocated (IntegerObject 1) NewEnvironment)))
   \<and> Eval exactHost 2 (InfixExpression (FloatLiteral (ofInt64 exactHost 1)) token_EQ (FloatLiteral 1))
        0 NewEnvironment =
       Done (Some 2)
         (allocated (BooleanObject True)
            (allocated (FloatObject 1) (allocated (FloatObject 1) NewEnvironment)))"
  by (simp add: eval_nat_numeral run_defs state_defs)

text \<open>Instances: \<^verbatim>\<open>1 + 2.5\<close> is the Float \<open>3.5\<close>, and \<^verbatim>\<open>1 < 2.5\<close> is true.\<close>

theorem numeric_promotion_witness:
  "Eval exactHost 2 (IntegerLiteral 1) 0 NewEnvironment =
     Done (Some 0) (allocated (IntegerObject 1) NewEnvironment)
   \<and> Eval exactHost 2 (FloatLiteral (5 / 2)) 0 (allocated (IntegerObject 1) NewEnvironment) =
       Done (Some 1) (allocated (FloatObject (5 / 2)) (allocated (IntegerObject 1) NewEnvironment))
   \<and> Eval exactHost 3 (InfixExpression (IntegerLiteral 1) token_Plus (FloatLiteral (5 / 2)))
        0 NewEnvironment =
       Done (Some 2)
         (allocated (FloatObject (7 / 2))
            (allocated (FloatObject (5 / 2)) (allocated (IntegerObject 1) NewEnvironment)))
   \<and> Eval exactHost 3 (InfixExpression (IntegerLiteral 1) token_LT (FloatLiteral (5 / 2)))
        0 NewEnvironment =
       Done (Some 2)
         (allocated (BooleanObject True)
            (allocated (FloatObject (5 / 2)) (allocated (IntegerObject 1) NewEnvironment)))"
proof -
  let ?s1 = "allocated (IntegerObject 1) (NewEnvironment :: rat state)"
  let ?s2 = "allocated (FloatObject (5 / 2)) ?s1"
  have left: "Eval exactHost 2 (IntegerLiteral 1) 0 NewEnvironment = Done (Some 0) ?s1"
    by (simp add: eval_nat_numeral run_defs state_defs)
  have noError: "\<not> isError ?s1 (Some 0)"
    by (simp add: run_defs state_defs)
  have right: "Eval exactHost 2 (FloatLiteral (5 / 2)) 0 ?s1 = Done (Some 1) ?s2"
    by (simp add: eval_nat_numeral run_defs state_defs)
  have objects: "objAt ?s2 0 = Some (IntegerObject 1) \<and> objAt ?s2 1 = Some (FloatObject (5 / 2))"
    by (simp add: run_defs state_defs)
  note P = numeric_promotion [OF left noError right, where a = 1 and y = "5 / 2"]
  have plus: "Eval exactHost (Suc 2) (InfixExpression (IntegerLiteral 1) token_Plus (FloatLiteral (5 / 2)))
        0 NewEnvironment = Done (Some 2) (allocated (FloatObject (7 / 2)) ?s2)"
    using P [where operator = token_Plus, THEN conjunct1] objects
    by (simp add: numericOperators_def arithmeticOperators_def floatOperation_def new_def
        allocated_def exactHost_def NewEnvironment_def)
  have less: "Eval exactHost (Suc 2) (InfixExpression (IntegerLiteral 1) token_LT (FloatLiteral (5 / 2)))
        0 NewEnvironment = Done (Some 2) (allocated (BooleanObject True) ?s2)"
    using P [where operator = token_LT, THEN conjunct1] objects
    by (simp add: numericOperators_def arithmeticOperators_def floatOperation_def new_def
        allocated_def exactHost_def NewEnvironment_def)
  from left right plus less show ?thesis by simp
qed

subsection \<open>Increment and decrement\<close>

lemma GetObject_objs [simp]: "GetObject (s\<lparr>objs := os\<rparr>) e name = GetObject s e name"
  by (simp add: GetObject_def cong: option.case_cong)

lemma objAt_less: "objAt s a = Some v \<Longrightarrow> a < length (objs s)"
  by (simp add: objAt_def split: if_splits)

text \<open>
  C7. Let a name be bound to an Integer object holding \<open>v\<close>, and let \<open>v'\<close> be \<open>v + 1\<close> for
  \<^verbatim>\<open>++\<close> and \<open>v - 1\<close> for \<^verbatim>\<open>--\<close>. The post-form yields a new Integer object holding \<open>v\<close>,
  at an address other than that of the bound object, and the pre-form yields the bound
  object itself; after either, the name is bound to the same object and that object holds
  \<open>v'\<close>. (With \<open>v = 5\<close>: \<^verbatim>\<open>x++\<close> yields a separate Integer \<open>5\<close>, \<^verbatim>\<open>++x\<close> yields the Integer
  \<open>6\<close>, and both leave \<open>x\<close> bound to \<open>6\<close>.) On a name that no scope binds the result is a
  new Error object, and so it is on a name bound to anything but an Integer or a Float.
\<close>

theorem increment:
  "(GetObject s e (Value name) = Some (Some a) \<and> objAt s a = Some (IntegerObject v)
      \<and> v' = (if operator = token_Increment then v + 1 else v - 1)
    \<longrightarrow> Eval h (Suc n) (IncrementExpression name operator False) e s =
          Done (Some (length (objs s)))
            (s\<lparr>objs := (objs s)[a := IntegerObject v'] @ [IntegerObject v]\<rparr>)
        \<and> a \<noteq> length (objs s)
        \<and> GetObject (s\<lparr>objs := (objs s)[a := IntegerObject v'] @ [IntegerObject v]\<rparr>) e
            (Value name) = Some (Some a)
        \<and> objAt (s\<lparr>objs := (objs s)[a := IntegerObject v'] @ [IntegerObject v]\<rparr>) a =
            Some (IntegerObject v')
        \<and> objAt (s\<lparr>objs := (objs s)[a := IntegerObject v'] @ [IntegerObject v]\<rparr>)
            (length (objs s)) = Some (IntegerObject v)
        \<and> Eval h (Suc n) (IncrementExpression name operator True) e s =
            Done (Some a) (s\<lparr>objs := (objs s)[a := IntegerObject v']\<rparr>)
        \<and> GetObject (s\<lparr>objs := (objs s)[a := IntegerObject v']\<rparr>) e (Value name) =
            Some (Some a)
        \<and> objAt (s\<lparr>objs := (objs s)[a := IntegerObject v']\<rparr>) a = Some (IntegerObject v'))
   \<and> (GetObject s e (Value name) = None
    \<longrightarrow> Eval h (Suc n) (IncrementExpression name operator pre) e s =
          new (ErrorObject ''Cannot resolve identifier'') s)
   \<and> (GetObject s e (Value name) = Some object \<and> \<not> isNumeric (deref s object)
    \<longrightarrow> Eval h (Suc n) (IncrementExpression name operator pre) e s =
          new (ErrorObject ''Cannot increment non-int'') s)"
proof -
  have found: "Eval h (Suc n) (IncrementExpression name operator False) e s =
          Done (Some (length (objs s)))
            (s\<lparr>objs := (objs s)[a := IntegerObject v'] @ [IntegerObject v]\<rparr>)
        \<and> a \<noteq> length (objs s)
        \<and> GetObject (s\<lparr>objs := (objs s)[a := IntegerObject v'] @ [IntegerObject v]\<rparr>) e
            (Value name) = Some (Some a)
        \<and> objAt (s\<lparr>objs := (objs s)[a := IntegerObject v'] @ [IntegerObject v]\<rparr>) a =
            Some (IntegerObject v')
        \<and> objAt (s\<lparr>objs := (objs s)[a := IntegerObject v'] @ [IntegerObject v]\<rparr>)
            (length (objs s)) = Some (IntegerObject v)
        \<and> Eval h (Suc n) (IncrementExpression name operator True) e s =
            Done (Some a) (s\<lparr>objs := (objs s)[a := IntegerObject v']\<rparr>)
        \<and> GetObject (s\<lparr>objs := (objs s)[a := IntegerObject v']\<rparr>) e (Value name) =
            Some (Some a)
        \<and> objAt (s\<lparr>objs := (objs s)[a := IntegerObject v']\<rparr>) a = Some (IntegerObject v')"
    if bound: "GetObject s e (Value name) = Some (Some a)"
      and integer: "objAt s a = Some (IntegerObject v)"
      and v': "v' = (if operator = token_Increment then v + 1 else v - 1)"
  proof -
    from integer have less: "a < length (objs s)"
      by (rule objAt_less)
    from bound integer v' have
      "Eval h (Suc n) (IncrementExpression name operator False) e s =
          Done (Some (length (objs s)))
            (s\<lparr>objs := (objs s)[a := IntegerObject v'] @ [IntegerObject v]\<rparr>)"
      and "Eval h (Suc n) (IncrementExpression name operator True) e s =
            Done (Some a) (s\<lparr>objs := (objs s)[a := IntegerObject v']\<rparr>)"
      by (simp_all add: evalIncrementExpression_def new_def)
    moreover from less have "a \<noteq> length (objs s)"
      by simp
    moreover from less have
      "objAt (s\<lparr>objs := (objs s)[a := IntegerObject v'] @ [IntegerObject v]\<rparr>) a =
            Some (IntegerObject v')"
      and "objAt (s\<lparr>objs := (objs s)[a := IntegerObject v'] @ [IntegerObject v]\<rparr>)
            (length (objs s)) = Some (IntegerObject v)"
      and "objAt (s\<lparr>objs := (objs s)[a := IntegerObject v']\<rparr>) a = Some (IntegerObject v')"
      by (simp_all add: objAt_def nth_append)
    ultimately show ?thesis using bound by simp
  qed
  have unresolved: "Eval h (Suc n) (IncrementExpression name operator pre) e s =
          new (ErrorObject ''Cannot resolve identifier'') s"
    if "GetObject s e (Value name) = None"
    using that by (simp add: evalIncrementExpression_def NewError_def)
  have other: "Eval h (Suc n) (IncrementExpression name operator pre) e s =
          new (ErrorObject ''Cannot increment non-int'') s"
    if bound: "GetObject s e (Value name) = Some object" and no: "\<not> isNumeric (deref s object)"
  proof (cases object)
    case None
    with bound show ?thesis by (simp add: evalIncrementExpression_def NewError_def)
  next
    case (Some b)
    show ?thesis
    proof (cases "objAt s b")
      case None
      with bound Some show ?thesis by (simp add: evalIncrementExpression_def NewError_def)
    next
      case (Some v)
      with bound no \<open>object = Some b\<close> show ?thesis
        by (cases v) (simp_all add: evalIncrementExpression_def NewError_def isNumeric_def)
    qed
  qed
  from found unresolved other show ?thesis
    by blast
qed

text \<open>
  Instances, in the state after \<^verbatim>\<open>let x = 5; let n;\<close>: \<^verbatim>\<open>x++\<close>, \<^verbatim>\<open>++x\<close>, \<^verbatim>\<open>--y\<close> with
  \<open>y\<close> unbound, and \<^verbatim>\<open>n++\<close> with \<open>n\<close> bound to Null.
\<close>

theorem increment_witness:
  "GetObject counterState 0 ''x'' = Some (Some 0) \<and> objAt counterState 0 = Some (IntegerObject 5)
   \<and> Eval exactHost (Suc 0) (IncrementExpression (ident ''x'') token_Increment False) 0 counterState =
       Done (Some 2) (counterState\<lparr>objs := [IntegerObject 6, NullObject, IntegerObject 5]\<rparr>)
   \<and> Eval exactHost (Suc 0) (IncrementExpression (ident ''x'') token_Increment True) 0 counterState =
       Done (Some 0) (counterState\<lparr>objs := [IntegerObject 6, NullObject]\<rparr>)
   \<and> GetObject counterState 0 ''y'' = None
   \<and> Eval exactHost (Suc 0) (IncrementExpression (ident ''y'') token_Decrement True) 0 counterState =
       Done (Some 2) (allocated (ErrorObject ''Cannot resolve identifier'') counterState)
   \<and> GetObject counterState 0 ''n'' = Some (Some 1) \<and> objAt counterState 1 = Some NullObject
   \<and> Eval exactHost (Suc 0) (IncrementExpression (ident ''n'') token_Increment False) 0 counterState =
       Done (Some 2) (allocated (ErrorObject ''Cannot increment non-int'') counterState)"
proof -
  note P = increment [where h = exactHost and n = 0 and e = 0 and s = counterState]
  have x: "GetObject counterState 0 (Value (ident ''x'')) = Some (Some 0) \<and> objAt counterState 0 = Some (IntegerObject 5)
      \<and> (6 :: int64) = (if token_Increment = token_Increment then 5 + 1 else 5 - 1)"
    by (simp add: GetObject_def counterState_def ident_def objAt_def)
  have y: "GetObject counterState 0 (Value (ident ''y'')) = None"
    by (simp add: GetObject_def counterState_def ident_def)
  have n: "GetObject counterState 0 (Value (ident ''n'')) = Some (Some 1) \<and> \<not> isNumeric (deref counterState (Some 1))"
    by (simp add: GetObject_def counterState_def ident_def objAt_def isNumeric_def)
  have null: "objAt counterState 1 = Some NullObject"
    by (simp add: counterState_def objAt_def)
  note Q = P [where name = "ident ''x''" and a = 0 and v = 5 and v' = 6 and operator = token_Increment,
      THEN conjunct1, THEN mp, OF x]
  have post: "Eval exactHost (Suc 0) (IncrementExpression (ident ''x'') token_Increment False) 0 counterState =
       Done (Some 2) (counterState\<lparr>objs := [IntegerObject 6, NullObject, IntegerObject 5]\<rparr>)"
    using Q [THEN conjunct1] by (simp add: counterState_def)
  have pre: "Eval exactHost (Suc 0) (IncrementExpression (ident ''x'') token_Increment True) 0 counterState =
       Done (Some 0) (counterState\<lparr>objs := [IntegerObject 6, NullObject]\<rparr>)"
    using Q [THEN conjunct2, THEN conjunct2, THEN conjunct2, THEN conjunct2, THEN conjunct2,
        THEN conjunct1]
    by (simp add: counterState_def)
  have unresolved: "Eval exactHost (Suc 0) (IncrementExpression (ident ''y'') token_Decrement True) 0 counterState =
       Done (Some 2) (allocated (ErrorObject ''Cannot resolve identifier'') counterState)"
    using P [where name = "ident ''y''" and operator = token_Decrement and pre = True,
        THEN conjunct2, THEN conjunct1, THEN mp, OF y]
    by (simp add: new_def allocated_def counterState_def)
  have nonNumeric: "Eval exactHost (Suc 0) (IncrementExpression (ident ''n'') token_Increment False) 0 counterState =
       Done (Some 2) (allocated (ErrorObject ''Cannot increment non-int'') counterState)"
    using P [where name = "ident ''n''" and operator = token_Increment and pre = False
        and object = "Some 1", THEN conjunct2, THEN conjunct2, THEN mp, OF n]
    by (simp add: new_def allocated_def counterState_def)
  from x y n null post pre unresolved nonNumeric show ?thesis
    by (simp add: ident_def)
qed

section \<open>Properties of the statement parser\<close>

lemma assertNext_True:
  "Type (peek p) = t \<Longrightarrow> assertNext t p = (True, moved p)"
  by (simp add: assertNext_def consume_def moved_def)

lemma current_moved [simp]: "current (moved p) = peek p"
  by (simp add: current_def peek_def moved_def tokenAt_def)

lemma consume_moved [simp]: "snd (consume p) = moved p"
  by (simp add: consume_def moved_def)

lemma GetInThisScope_moved [simp]: "GetInThisScope (moved p) c name = GetInThisScope p c name"
  by (simp add: GetInThisScope_def moved_def)

text \<open>
  A let statement \<^verbatim>\<open>let name := value;\<close> whose name the current scope already defines:
  whatever the expression parser returns for the value, the statement is dropped
  (\<^verbatim>\<open>nil\<close>) and the diagnostic is recorded on the name's token. Where the scope does not
  define the name, the statement is kept and the name is defined in that scope.
\<close>

lemma let_redefinition:
  assumes "Type (peek p) = token_Ident"
    and "Type (peek (moved p)) = token_Define"
    and "parseExpression H context (moved (moved (moved p))) = Done value p1"
    and "Type (peek p1) = token_Semi"
    and "GetInThisScope p1 context (Literal (peek p)) = Some t"
  shows "parseLetStatement H context p =
           Done None
             (error (Some (peek p))
                (''Cannot redefine '' @ [CHR 0x27] @ Literal (peek p) @ [CHR 0x27])
                (moved p1))"
  using assms
  by (simp add: parseLetStatement_def assertNext_True Let_def)

lemma let_in_fresh_scope:
  assumes "Type (peek p) = token_Ident"
    and "Type (peek (moved p)) = token_Define"
    and "parseExpression H context (moved (moved (moved p))) = Done value p1"
    and "Type (peek p1) = token_Semi"
    and "GetInThisScope p1 context (Literal (peek p)) = None"
    and "TypeOfExpression H value context (moved p1) = Done inferredType p2"
  shows "parseLetStatement H context p =
           Done (Some (LetStatement (Some (current p))
                   \<lparr>IdentToken = Some (peek p), Value = Literal (peek p)\<rparr>
                   (Some inferredType) value))
             (Define context (Literal (peek p)) inferredType p2)"
  using assms
  by (simp add: parseLetStatement_def assertNext_True Let_def)

text \<open>
  C8. Two let statements of one name in one scope: the parser records a diagnostic and
  drops the second statement; the same name declared in a nested child scope should be
  accepted with no diagnostic. \<^verbatim>\<open>parseIfStatement\<close>, \<^verbatim>\<open>parseWhileStatement\<close> and
  \<^verbatim>\<open>parseFunctionDefinitionStatement\<close> open a child context for the nested statement,
  but \<^verbatim>\<open>parseBlockStatement\<close> parses the statements of a block in the context it was
  given, while \<^verbatim>\<open>evalBlockStatement\<close> opens a scope for every block. So, run on the three
  token lists:
  \<^item> \<^verbatim>\<open>{ let x := "a"; { let x := "b"; } }\<close>: the let statement of the nested block is
    rejected as a redefinition and dropped (the nested block comes out empty);
  \<^item> \<^verbatim>\<open>{ let x := "a"; if x { let x := "b"; } }\<close>: accepted with no diagnostic;
  \<^item> \<^verbatim>\<open>{ let x := "a"; let x := "b"; }\<close>: the second let statement is rejected and
    dropped, and the parser returns.
\<close>

theorem nested_scopes_check:
  "(case parseStatement oneTokenHost 6 0 (newParser nestedBlock) of
      Done statement p \<Rightarrow>
        statement = Some (blockNode [letNode ''a'', blockNode []]) \<and> errors p = [redefined]
    | _ \<Rightarrow> False)
   \<and> (case parseStatement oneTokenHost 6 0 (newParser nestedIf) of
      Done statement p \<Rightarrow>
        statement = Some (blockNode [letNode ''a'',
          IfStatement (Some (mkToken token_If ''if''))
            (Identifier \<lparr>IdentToken = Some (mkToken token_Ident ''x''), Value = ''x''\<rparr>)
            (blockNode [letNode ''b'']) None None None])
        \<and> errors p = []
    | _ \<Rightarrow> False)
   \<and> (case parseStatement oneTokenHost 6 0 (newParser sameScope) of
      Done statement p \<Rightarrow>
        statement = Some (blockNode [letNode ''a'']) \<and> errors p = [redefined]
    | _ \<Rightarrow> False)"
  by code_simp

end
